theory Spec2Isabelle
  imports Complex_Main "HOL-Library.Monad_Syntax" "HOL-Library.Log_Nat"
begin

section \<open>The budget computation engine of BudgetApp\<close>

text \<open>
  The front end computes an income statement from raw revenue, percentage assumptions and
  revenue-type allocations. The cascade exists twice: \<^verbatim>\<open>calculateAllValues\<close> in
  \<^verbatim>\<open>income-statement.js\<close> (the assumption editor, one value per branch and line
  item) and \<^verbatim>\<open>calculateMonthValues\<close> in \<^verbatim>\<open>income-statement-budget.js\<close> (the
  budget view, one value per branch, line item and month). Each copy is transcribed here on
  its own, from its own source text.

  Numbers. In the main model a JavaScript number is a \<^typ>\<open>real\<close> and arithmetic is
  exact. Where the rounding of binary64 doubles decides a property (the comparison of
  fiscal totals with annual values), the cascades are given again over an arithmetic that is
  a parameter, with binary64 as an instance. A value that is absent
  (\<^verbatim>\<open>undefined\<close>, \<^verbatim>\<open>null\<close>) or \<^verbatim>\<open>NaN\<close> is \<^term>\<open>None\<close>; every read of the cascade
  guards it with \<^verbatim>\<open>|| 0\<close>, which is \<open>orZero\<close>.
\<close>

subsection \<open>Shared data model\<close>

text \<open>\<^verbatim>\<open>x || 0\<close> on a number or a missing value.\<close>

definition orZero :: "real option \<Rightarrow> real" where
  "orZero x = (case x of None \<Rightarrow> 0 | Some v \<Rightarrow> v)"

text \<open>\<^verbatim>\<open>{ IP, OP, ER }\<close>: the revenue of one branch (for a year or for a month).\<close>

record revenue =
  IP :: "real option"
  OP :: "real option"
  ER :: "real option"

text \<open>
  \<^verbatim>\<open>assumptionsData\<close>: \<^verbatim>\<open>{ branchId: { lineItemCode: { assumption_value } } }\<close> and
  \<^verbatim>\<open>revenueTypeAssumptions\<close>: \<^verbatim>\<open>{ branchId: { REV_TYPE_...: value } }\<close>.
\<close>

type_synonym assumptions = "nat \<rightharpoonup> (string \<rightharpoonup> real)"
type_synonym allocations = "nat \<rightharpoonup> (string \<rightharpoonup> real)"

text \<open>\<^verbatim>\<open>assumptionsData[branchId]?.[code]?.assumption_value || 0\<close>\<close>

definition assumption_value :: "assumptions \<Rightarrow> nat \<Rightarrow> string \<Rightarrow> real" where
  "assumption_value assumptionsData branchId code =
     (case assumptionsData branchId of
        None \<Rightarrow> 0
      | Some items \<Rightarrow> orZero (items code))"

text \<open>\<^verbatim>\<open>revenueTypeAssumptions[branchId]?.[code] || 0\<close>\<close>

definition revTypePct :: "allocations \<Rightarrow> nat \<Rightarrow> string \<Rightarrow> real" where
  "revTypePct revenueTypeAssumptions branchId code =
     (case revenueTypeAssumptions branchId of
        None \<Rightarrow> 0
      | Some types \<Rightarrow> orZero (types code))"

text \<open>\<^verbatim>\<open>const BRANCH_IDS = Object.keys(BRANCHES).map(Number)\<close>, the same in both files.\<close>

definition BRANCH_IDS :: "nat list" where
  "BRANCH_IDS = [1, 2, 3, 4, 5, 6]"

subsection \<open>The assumption editor: \<^verbatim>\<open>income-statement.js\<close>\<close>

text \<open>\<^verbatim>\<open>revenueData\<close>: \<^verbatim>\<open>{ branchId: { IP, OP, ER } }\<close>, the annual figures.\<close>

type_synonym revenueData = "nat \<rightharpoonup> revenue"

text \<open>\<^verbatim>\<open>revenueData[branchId]?.IP || 0\<close>\<close>

definition annualRevenue :: "revenueData \<Rightarrow> nat \<Rightarrow> (revenue \<Rightarrow> real option) \<Rightarrow> real" where
  "annualRevenue revenueData branchId field =
     (case revenueData branchId of
        None \<Rightarrow> 0
      | Some r \<Rightarrow> orZero (field r))"

text \<open>
  The body of \<^verbatim>\<open>BRANCH_IDS.forEach(branchId => ...)\<close> in \<^verbatim>\<open>calculateAllValues\<close>.
  The local constants are the \<open>let\<close> bindings, in the order of the source; the result
  lists the assignments \<^verbatim>\<open>calculatedData[branchId][code] = value\<close> in the order in which
  the source makes them.
\<close>

definition calculateAllValues_branch ::
  "revenueData \<Rightarrow> allocations \<Rightarrow> assumptions \<Rightarrow> nat \<Rightarrow> (string \<times> real) list" where
  "calculateAllValues_branch revenueData revenueTypeAssumptions assumptionsData branchId =
    (let ipRevenue = annualRevenue revenueData branchId IP;
         opRevenue = annualRevenue revenueData branchId OP;
         erRevenue = annualRevenue revenueData branchId ER;
         subRevenue = ipRevenue + opRevenue + erRevenue;
         mohRevTypePct = revTypePct revenueTypeAssumptions branchId ''REV_TYPE_MOH'';
         insuranceRevTypePct = revTypePct revenueTypeAssumptions branchId ''REV_TYPE_INSURANCE'';
         rejectionMohPct = assumption_value assumptionsData branchId ''DIS_REJECTION_MOH'';
         rejectionMohValue = subRevenue * (rejectionMohPct / 100) * (mohRevTypePct / 100);
         rejectionInsPct = assumption_value assumptionsData branchId ''DIS_REJECTION_INS'';
         rejectionInsValue = subRevenue * (rejectionInsPct / 100) * (insuranceRevTypePct / 100);
         totalRejection = rejectionMohValue + rejectionInsValue;
         volumePct = assumption_value assumptionsData branchId ''DIS_VOLUME'';
         volumeValue = subRevenue * (volumePct / 100);
         earlyPayPct = assumption_value assumptionsData branchId ''DIS_EARLY_PAY'';
         earlyPayValue = subRevenue * (earlyPayPct / 100);
         totalDiscounts = totalRejection + volumeValue + earlyPayValue;
         netRevenue = subRevenue - totalDiscounts;
         directCostCodes = [''DC_CONSUMABLES'', ''DC_MEDICINES'', ''DC_DOCTORS_FEE'', ''DC_EMPLOYEE'',
            ''DC_GOVT_FEES'', ''DC_INSURANCE'', ''DC_KITCHEN'', ''DC_MAINTENANCE'', ''DC_OTHER'',
            ''DC_REFERRAL'', ''DC_RENTAL'', ''DC_TRAINING'', ''DC_TRAVEL'', ''DC_UTILITIES''];
         directCosts = map (\<lambda>code. (code, netRevenue * (assumption_value assumptionsData branchId code / 100)))
                           directCostCodes;
         totalDirectCosts = foldl (+) 0 (map snd directCosts);
         grossProfit = netRevenue - totalDirectCosts;
         gaCodes = [''GA_GOVT_FEE'', ''GA_AUDIT'', ''GA_COMMUNICATION'', ''GA_ECL'', ''GA_OTHER'',
            ''GA_POSTAGE'', ''GA_PROFESSIONAL'', ''GA_SECURITY'', ''GA_TRAINING'', ''GA_EMPLOYEE'',
            ''GA_MARKETING'', ''GA_HO_CHARGES''];
         gaExpenses = map (\<lambda>code. (code, netRevenue * (assumption_value assumptionsData branchId code / 100)))
                          gaCodes;
         totalGAExpenses = foldl (+) 0 (map snd gaExpenses);
         otherIncomePct = assumption_value assumptionsData branchId ''OTHER_INCOME'';
         otherIncome = netRevenue * (otherIncomePct / 100);
         ebitda = grossProfit - totalGAExpenses + otherIncome;
         financeCostPct = assumption_value assumptionsData branchId ''FINANCE_COST'';
         financeCost = netRevenue * (financeCostPct / 100);
         depreciationPct = assumption_value assumptionsData branchId ''DEPRECIATION'';
         depreciation = netRevenue * (depreciationPct / 100);
         zakatPct = assumption_value assumptionsData branchId ''ZAKAT'';
         zakat = netRevenue * (zakatPct / 100);
         netProfit = ebitda - financeCost - depreciation - zakat;
         ociPct = assumption_value assumptionsData branchId ''OCI'';
         oci = netRevenue * (ociPct / 100)
     in [(''REV_SUB'', subRevenue),
         (''DIS_REJECTION_MOH'', rejectionMohValue),
         (''DIS_REJECTION_INS'', rejectionInsValue),
         (''DIS_REJECTION'', totalRejection),
         (''DIS_VOLUME'', volumeValue),
         (''DIS_EARLY_PAY'', earlyPayValue),
         (''DIS_SETTLEMENT'', totalDiscounts),
         (''REV_NET'', netRevenue)]
        @ directCosts @
        [(''TOTAL_DC'', totalDirectCosts),
         (''GROSS_PROFIT'', grossProfit)]
        @ gaExpenses @
        [(''TOTAL_GA'', totalGAExpenses),
         (''OTHER_INCOME'', otherIncome),
         (''EBITDA'', ebitda),
         (''FINANCE_COST'', financeCost),
         (''DEPRECIATION'', depreciation),
         (''ZAKAT'', zakat),
         (''NET_PROFIT'', netProfit),
         (''OCI'', oci),
         (''TOTAL_COMP_INCOME'', netProfit + oci)])"

text \<open>The assignments land in the object \<^verbatim>\<open>calculatedData[branchId]\<close>; a later one wins.\<close>

definition assign :: "(string \<times> real) list \<Rightarrow> (string \<rightharpoonup> real) \<Rightarrow> (string \<rightharpoonup> real)" where
  "assign ws obj = fold (\<lambda>w m. m(fst w \<mapsto> snd w)) ws obj"

text \<open>
  \<^verbatim>\<open>calculateAllValues\<close>: \<^verbatim>\<open>calculatedData = {}\<close>, then for every branch
  \<^verbatim>\<open>calculatedData[branchId] = {}\<close> and the assignments of the cascade.
\<close>

definition calculateAllValues ::
  "revenueData \<Rightarrow> allocations \<Rightarrow> assumptions \<Rightarrow> (nat \<rightharpoonup> (string \<rightharpoonup> real))" where
  "calculateAllValues revenueData revenueTypeAssumptions assumptionsData =
     fold (\<lambda>branchId calculatedData.
             calculatedData(branchId \<mapsto>
               assign (calculateAllValues_branch revenueData revenueTypeAssumptions assumptionsData branchId)
                      Map.empty))
          BRANCH_IDS Map.empty"

text \<open>\<^verbatim>\<open>calculatedData[branchId][code]\<close> of the editor, \<^term>\<open>None\<close> when undefined.\<close>

definition calculated :: "(nat \<rightharpoonup> (string \<rightharpoonup> real)) \<Rightarrow> nat \<Rightarrow> string \<Rightarrow> real option" where
  "calculated calculatedData branchId code =
     (case calculatedData branchId of None \<Rightarrow> None | Some items \<Rightarrow> items code)"

subsection \<open>The budget view: \<^verbatim>\<open>income-statement-budget.js\<close>\<close>

text \<open>
  \<^verbatim>\<open>monthlyRevenueData\<close>: \<^verbatim>\<open>{ branchId: { month: { IP, OP, ER } } }\<close>. The keys of a JSON
  object are strings, and \<^verbatim>\<open>monthData[month]\<close> and \<^verbatim>\<open>monthData[String(month)]\<close> read
  the same property, so the month number is the key.
\<close>

type_synonym monthlyRevenueData = "nat \<rightharpoonup> (nat \<rightharpoonup> revenue)"

text \<open>
  The columns of a row of \<^verbatim>\<open>calculatedData[branchId][code]\<close>: the keys
  \<^verbatim>\<open>month_1\<close>, ..., \<^verbatim>\<open>month_12\<close> and \<^verbatim>\<open>fy_total\<close>.
\<close>

datatype col = month nat | fy_total

type_synonym calculatedData = "nat \<rightharpoonup> (string \<rightharpoonup> (col \<rightharpoonup> real))"

text \<open>
  \<^verbatim>\<open>LINE_ITEMS_CONFIG\<close> of the budget view, in its order. The calculation and the
  aggregation read only \<^verbatim>\<open>item.code\<close>; the other attributes style the table.
\<close>

definition LINE_ITEMS_CONFIG :: "string list" where
  "LINE_ITEMS_CONFIG =
    [''REV_IP'', ''REV_OP'', ''REV_ER'', ''REV_SUB'',
     ''DIS_REJECTION_MOH'', ''DIS_REJECTION_INS'', ''DIS_REJECTION'', ''DIS_VOLUME'',
     ''DIS_EARLY_PAY'', ''DIS_SETTLEMENT'', ''REV_NET'',
     ''DC_CONSUMABLES'', ''DC_MEDICINES'', ''DC_DOCTORS_FEE'', ''DC_EMPLOYEE'', ''DC_GOVT_FEES'',
     ''DC_INSURANCE'', ''DC_KITCHEN'', ''DC_MAINTENANCE'', ''DC_OTHER'', ''DC_REFERRAL'',
     ''DC_RENTAL'', ''DC_TRAINING'', ''DC_TRAVEL'', ''DC_UTILITIES'', ''TOTAL_DC'', ''GROSS_PROFIT'',
     ''GA_GOVT_FEE'', ''GA_AUDIT'', ''GA_COMMUNICATION'', ''GA_ECL'', ''GA_OTHER'', ''GA_POSTAGE'',
     ''GA_PROFESSIONAL'', ''GA_SECURITY'', ''GA_TRAINING'', ''GA_EMPLOYEE'', ''GA_MARKETING'',
     ''GA_HO_CHARGES'', ''TOTAL_GA'', ''OTHER_INCOME'', ''EBITDA'',
     ''FINANCE_COST'', ''DEPRECIATION'', ''ZAKAT'', ''NET_PROFIT'', ''OCI'', ''TOTAL_COMP_INCOME'']"

text \<open>
  The branch selector holds \<^verbatim>\<open>'all'\<close> or the id of one branch as a string, which
  \<^verbatim>\<open>getSelectedBranches\<close> reads with \<^verbatim>\<open>parseInt\<close>.
\<close>

datatype selectedBranch = SelAll | SelBranch nat

fun getSelectedBranches :: "selectedBranch \<Rightarrow> nat list" where
  "getSelectedBranches SelAll = BRANCH_IDS"
| "getSelectedBranches (SelBranch b) = [b]"

text \<open>
  \<^verbatim>\<open>monthData?.[month] || monthData?.[String(month)] || { IP: 0, OP: 0, ER: 0 }\<close>
\<close>

definition monthRevenue :: "monthlyRevenueData \<Rightarrow> nat \<Rightarrow> nat \<Rightarrow> revenue" where
  "monthRevenue monthlyRevenueData branchId m =
     (case monthlyRevenueData branchId of
        None \<Rightarrow> \<lparr>IP = Some 0, OP = Some 0, ER = Some 0\<rparr>
      | Some monthData \<Rightarrow>
          (case monthData m of
             None \<Rightarrow> \<lparr>IP = Some 0, OP = Some 0, ER = Some 0\<rparr>
           | Some r \<Rightarrow> r))"

text \<open>
  The values that \<^verbatim>\<open>calculateMonthValues(branchId, month)\<close> computes, as the list of
  its assignments \<^verbatim>\<open>calculatedData[branchId][code][monthKey] = value\<close> in source order.
  \<^verbatim>\<open>parseFloat(monthRevenue.IP) || 0\<close> is \<open>orZero\<close> of the field.
\<close>

definition calculateMonthValues_values ::
  "monthlyRevenueData \<Rightarrow> allocations \<Rightarrow> assumptions \<Rightarrow> nat \<Rightarrow> nat \<Rightarrow> (string \<times> real) list" where
  "calculateMonthValues_values monthlyRevenueData revenueTypeAssumptions assumptionsData branchId m =
    (let monthRev = monthRevenue monthlyRevenueData branchId m;
         ipRevenue = orZero (IP monthRev);
         opRevenue = orZero (OP monthRev);
         erRevenue = orZero (ER monthRev);
         subRevenue = ipRevenue + opRevenue + erRevenue;
         mohRevTypePct = revTypePct revenueTypeAssumptions branchId ''REV_TYPE_MOH'';
         insuranceRevTypePct = revTypePct revenueTypeAssumptions branchId ''REV_TYPE_INSURANCE'';
         rejectionMohPct = assumption_value assumptionsData branchId ''DIS_REJECTION_MOH'';
         rejectionMohValue = subRevenue * (rejectionMohPct / 100) * (mohRevTypePct / 100);
         rejectionInsPct = assumption_value assumptionsData branchId ''DIS_REJECTION_INS'';
         rejectionInsValue = subRevenue * (rejectionInsPct / 100) * (insuranceRevTypePct / 100);
         totalRejection = rejectionMohValue + rejectionInsValue;
         volumePct = assumption_value assumptionsData branchId ''DIS_VOLUME'';
         volumeValue = subRevenue * (volumePct / 100);
         earlyPayPct = assumption_value assumptionsData branchId ''DIS_EARLY_PAY'';
         earlyPayValue = subRevenue * (earlyPayPct / 100);
         totalDiscounts = totalRejection + volumeValue + earlyPayValue;
         netRevenue = subRevenue - totalDiscounts;
         directCostCodes = [''DC_CONSUMABLES'', ''DC_MEDICINES'', ''DC_DOCTORS_FEE'', ''DC_EMPLOYEE'',
            ''DC_GOVT_FEES'', ''DC_INSURANCE'', ''DC_KITCHEN'', ''DC_MAINTENANCE'', ''DC_OTHER'',
            ''DC_REFERRAL'', ''DC_RENTAL'', ''DC_TRAINING'', ''DC_TRAVEL'', ''DC_UTILITIES''];
         directCosts = map (\<lambda>code. (code, netRevenue * (assumption_value assumptionsData branchId code / 100)))
                           directCostCodes;
         totalDirectCosts = foldl (+) 0 (map snd directCosts);
         grossProfit = netRevenue - totalDirectCosts;
         gaCodes = [''GA_GOVT_FEE'', ''GA_AUDIT'', ''GA_COMMUNICATION'', ''GA_ECL'', ''GA_OTHER'',
            ''GA_POSTAGE'', ''GA_PROFESSIONAL'', ''GA_SECURITY'', ''GA_TRAINING'', ''GA_EMPLOYEE'',
            ''GA_MARKETING'', ''GA_HO_CHARGES''];
         gaExpenses = map (\<lambda>code. (code, netRevenue * (assumption_value assumptionsData branchId code / 100)))
                          gaCodes;
         totalGAExpenses = foldl (+) 0 (map snd gaExpenses);
         otherIncomePct = assumption_value assumptionsData branchId ''OTHER_INCOME'';
         otherIncome = netRevenue * (otherIncomePct / 100);
         ebitda = grossProfit - totalGAExpenses + otherIncome;
         financeCostPct = assumption_value assumptionsData branchId ''FINANCE_COST'';
         financeCost = netRevenue * (financeCostPct / 100);
         depreciationPct = assumption_value assumptionsData branchId ''DEPRECIATION'';
         depreciation = netRevenue * (depreciationPct / 100);
         zakatPct = assumption_value assumptionsData branchId ''ZAKAT'';
         zakat = netRevenue * (zakatPct / 100);
         netProfit = ebitda - financeCost - depreciation - zakat;
         ociPct = assumption_value assumptionsData branchId ''OCI'';
         oci = netRevenue * (ociPct / 100)
     in [(''REV_IP'', ipRevenue),
         (''REV_OP'', opRevenue),
         (''REV_ER'', erRevenue),
         (''REV_SUB'', subRevenue),
         (''DIS_REJECTION_MOH'', rejectionMohValue),
         (''DIS_REJECTION_INS'', rejectionInsValue),
         (''DIS_REJECTION'', totalRejection),
         (''DIS_VOLUME'', volumeValue),
         (''DIS_EARLY_PAY'', earlyPayValue),
         (''DIS_SETTLEMENT'', totalDiscounts),
         (''REV_NET'', netRevenue)]
        @ directCosts @
        [(''TOTAL_DC'', totalDirectCosts),
         (''GROSS_PROFIT'', grossProfit)]
        @ gaExpenses @
        [(''TOTAL_GA'', totalGAExpenses),
         (''OTHER_INCOME'', otherIncome),
         (''EBITDA'', ebitda),
         (''FINANCE_COST'', financeCost),
         (''DEPRECIATION'', depreciation),
         (''ZAKAT'', zakat),
         (''NET_PROFIT'', netProfit),
         (''OCI'', oci),
         (''TOTAL_COMP_INCOME'', netProfit + oci)])"

text \<open>
  \<^verbatim>\<open>calculatedData[branchId][code][key] = v\<close>. It throws a TypeError (\<^term>\<open>None\<close>) when
  \<^verbatim>\<open>calculatedData[branchId]\<close> or \<^verbatim>\<open>calculatedData[branchId][code]\<close> is undefined.
\<close>

definition setCell :: "nat \<Rightarrow> col \<Rightarrow> string \<times> real \<Rightarrow> calculatedData \<Rightarrow> calculatedData option" where
  "setCell branchId key w calculatedData =
     (case calculatedData branchId of
        None \<Rightarrow> None
      | Some items \<Rightarrow>
          (case items (fst w) of
             None \<Rightarrow> None
           | Some row \<Rightarrow> Some (calculatedData(branchId \<mapsto> items(fst w \<mapsto> row(key \<mapsto> snd w))))))"

text \<open>A \<^verbatim>\<open>forEach\<close> or \<^verbatim>\<open>for\<close> loop whose body may throw: the first throw ends it.\<close>

fun forEach :: "('a \<Rightarrow> 's \<Rightarrow> 's option) \<Rightarrow> 'a list \<Rightarrow> 's \<Rightarrow> 's option" where
  "forEach body [] s = Some s"
| "forEach body (x # xs) s = (case body x s of None \<Rightarrow> None | Some s' \<Rightarrow> forEach body xs s')"

definition calculateMonthValues ::
  "monthlyRevenueData \<Rightarrow> allocations \<Rightarrow> assumptions \<Rightarrow> nat \<Rightarrow> nat \<Rightarrow> calculatedData
     \<Rightarrow> calculatedData option" where
  "calculateMonthValues monthlyRevenueData revenueTypeAssumptions assumptionsData branchId m calculatedData =
     forEach (setCell branchId (month m))
       (calculateMonthValues_values monthlyRevenueData revenueTypeAssumptions assumptionsData branchId m)
       calculatedData"

text \<open>
  The row a line item starts with in \<^verbatim>\<open>calculateAllBranchValues\<close>:
  \<^verbatim>\<open>month_1\<close> to \<^verbatim>\<open>month_12\<close> and \<^verbatim>\<open>fy_total\<close>, all 0.
\<close>

definition initRow :: "col \<rightharpoonup> real" where
  "initRow = (fold (\<lambda>m row. row(month m \<mapsto> 0)) [1..<13] Map.empty)(fy_total \<mapsto> 0)"

definition initItems :: "string \<rightharpoonup> (col \<rightharpoonup> real)" where
  "initItems = fold (\<lambda>code items. items(code \<mapsto> initRow)) LINE_ITEMS_CONFIG Map.empty"

text \<open>
  The last loop of \<^verbatim>\<open>calculateAllBranchValues\<close>, for one line item:
  \<^verbatim>\<open>fyTotal += calculatedData[branchId][item.code][`month_${m}`] || 0\<close> over the twelve
  months, then \<^verbatim>\<open>calculatedData[branchId][item.code].fy_total = fyTotal\<close>.
\<close>

definition setFyTotal :: "nat \<Rightarrow> string \<Rightarrow> calculatedData \<Rightarrow> calculatedData option" where
  "setFyTotal branchId code calculatedData =
     (case calculatedData branchId of
        None \<Rightarrow> None
      | Some items \<Rightarrow>
          (case items code of
             None \<Rightarrow> None
           | Some row \<Rightarrow>
               (let fyTotal = foldl (\<lambda>acc m. acc + orZero (row (month m))) 0 [1..<13]
                in Some (calculatedData(branchId \<mapsto> items(code \<mapsto> row(fy_total \<mapsto> fyTotal)))))))"

text \<open>The body of \<^verbatim>\<open>branchesToCalc.forEach(branchId => ...)\<close>.\<close>

definition calculateAllBranchValues_branch ::
  "monthlyRevenueData \<Rightarrow> allocations \<Rightarrow> assumptions \<Rightarrow> nat \<Rightarrow> calculatedData \<Rightarrow> calculatedData option" where
  "calculateAllBranchValues_branch monthlyRevenueData revenueTypeAssumptions assumptionsData branchId calculatedData =
     do {
       cd1 \<leftarrow> Some (calculatedData(branchId \<mapsto> initItems));
       cd2 \<leftarrow> forEach (calculateMonthValues monthlyRevenueData revenueTypeAssumptions assumptionsData branchId)
                [1..<13] cd1;
       forEach (setFyTotal branchId) LINE_ITEMS_CONFIG cd2
     }"

definition calculateAllBranchValues ::
  "monthlyRevenueData \<Rightarrow> allocations \<Rightarrow> assumptions \<Rightarrow> selectedBranch \<Rightarrow> calculatedData
     \<Rightarrow> calculatedData option" where
  "calculateAllBranchValues monthlyRevenueData revenueTypeAssumptions assumptionsData selected calculatedData =
     forEach (calculateAllBranchValues_branch monthlyRevenueData revenueTypeAssumptions assumptionsData)
       (getSelectedBranches selected) calculatedData"

text \<open>\<^verbatim>\<open>calculatedData[branchId]?.[item.code]?.[key] || 0\<close>, the read of the table and the export.\<close>

definition cellOrZero :: "calculatedData \<Rightarrow> nat \<Rightarrow> string \<Rightarrow> col \<Rightarrow> real" where
  "cellOrZero calculatedData branchId code key =
     (case calculatedData branchId of
        None \<Rightarrow> 0
      | Some items \<Rightarrow> (case items code of None \<Rightarrow> 0 | Some row \<Rightarrow> orZero (row key)))"

text \<open>
  \<^verbatim>\<open>createDataRow(item)\<close>: for each month, \<^verbatim>\<open>monthTotal\<close> adds the cell of every selected
  branch; \<^verbatim>\<open>fyTotal\<close> adds the month totals. The result is the numbers of the row (the
  cells show them through \<^verbatim>\<open>formatCurrency\<close>).
\<close>

definition monthTotal :: "calculatedData \<Rightarrow> selectedBranch \<Rightarrow> string \<Rightarrow> nat \<Rightarrow> real" where
  "monthTotal calculatedData selected code m =
     foldl (\<lambda>total branchId. total + cellOrZero calculatedData branchId code (month m)) 0
       (getSelectedBranches selected)"

definition createDataRow :: "calculatedData \<Rightarrow> selectedBranch \<Rightarrow> string \<Rightarrow> real list \<times> real" where
  "createDataRow calculatedData selected code =
     (let monthTotals = map (monthTotal calculatedData selected code) [1..<13]
      in (monthTotals, foldl (+) 0 monthTotals))"

subsection \<open>Revenue-type totals of the editor: \<^verbatim>\<open>calculateRevenueTypeTotals\<close>\<close>

text \<open>\<^verbatim>\<open>REVENUE_TYPE_CONFIG\<close>, by code.\<close>

definition REVENUE_TYPE_CONFIG :: "string list" where
  "REVENUE_TYPE_CONFIG =
     [''REV_TYPE_INSURANCE'', ''REV_TYPE_CASH'', ''REV_TYPE_MOH'', ''REV_TYPE_OTHER_CREDIT'']"

text \<open>
  The second loop of \<^verbatim>\<open>calculateRevenueTypeTotals\<close>, for one revenue type: the state
  of \<^verbatim>\<open>BRANCH_IDS.forEach\<close> is the pair \<^verbatim>\<open>(typeTotal, branchCount)\<close>.
\<close>

definition typeTotalStep :: "allocations \<Rightarrow> string \<Rightarrow> nat \<Rightarrow> real \<times> nat \<Rightarrow> real \<times> nat" where
  "typeTotalStep revenueTypeAssumptions code branchId acc =
     (let val = revTypePct revenueTypeAssumptions branchId code
      in if val > 0 then (fst acc + val, snd acc + 1) else acc)"

definition avgTotal :: "allocations \<Rightarrow> string \<Rightarrow> real" where
  "avgTotal revenueTypeAssumptions code =
     (let acc = fold (typeTotalStep revenueTypeAssumptions code) BRANCH_IDS (0, 0);
          typeTotal = fst acc;
          branchCount = snd acc
      in if branchCount > 0 then typeTotal / real branchCount else 0)"

text \<open>
  The number behind each cell \<^verbatim>\<open>rev-total-<code>\<close> (the cell shows it through
  \<^verbatim>\<open>toFixed(2)\<close>).
\<close>

definition calculateRevenueTypeTotals :: "allocations \<Rightarrow> (string \<times> real) list" where
  "calculateRevenueTypeTotals revenueTypeAssumptions =
     map (\<lambda>code. (code, avgTotal revenueTypeAssumptions code)) REVENUE_TYPE_CONFIG"

text \<open>The mean of a list of numbers, 0 for the empty list: the reading the claims use.\<close>

definition mean :: "real list \<Rightarrow> real" where
  "mean xs = (if xs = [] then 0 else sum_list xs / real (length xs))"

subsection \<open>The daily-budget summary: \<^verbatim>\<open>updateSummaryCards\<close> in \<^verbatim>\<open>daily-budget.js\<close>\<close>

text \<open>A row of \<^verbatim>\<open>dailyBudgetData\<close>, with the fields the summary reads.\<close>

record dailyRow =
  stay_type :: "string option"
  cpe :: "real option"
  alos :: "real option"
  row_revenue :: "real option"
  row_episodes :: "real option"

text \<open>An entry of \<^verbatim>\<open>stayTypeMetrics\<close>.\<close>

record metrics =
  revenue :: real
  episodes :: real
  totalCPE :: real
  countCPE :: nat
  totalALOS :: real
  countALOS :: nat
  records :: nat

text \<open>\<^verbatim>\<open>row.stay_type || 'Unknown'\<close>: the empty string is falsy as well.\<close>

definition stayTypeOf :: "dailyRow \<Rightarrow> string" where
  "stayTypeOf row = (case stay_type row of None \<Rightarrow> ''Unknown'' | Some s \<Rightarrow> (if s = [] then ''Unknown'' else s))"

text \<open>
  The body of \<^verbatim>\<open>dailyBudgetData.forEach(row => ...)\<close>: the entry of the row's stay
  type is created with zeros when it is missing, then updated in place. \<open>updateMetrics\<close>
  is the update of that entry.

  \<^verbatim>\<open>stayTypeMetrics\<close> is a plain object, whose keys are its own properties. For a stay
  type that names a property inherited from \<^verbatim>\<open>Object.prototype\<close>, the test
  \<^verbatim>\<open>!stayTypeMetrics[stayType]\<close> finds the inherited value, which is truthy: no own
  entry is created, the updates go to the inherited object, and \<^verbatim>\<open>Object.keys\<close> shows
  no row for it. What those updates leave behind on the inherited object is \<^verbatim>\<open>NaN\<close>
  under the names of the fields of an entry; \<^verbatim>\<open>NaN\<close> is falsy, so the reads
  \<^verbatim>\<open>!stayTypeMetrics[...]\<close> and \<^verbatim>\<open>row.x || 0\<close> of later rows go as before.
\<close>

definition updateMetrics :: "dailyRow \<Rightarrow> metrics \<Rightarrow> metrics" where
  "updateMetrics row m0 =
     (let cpeV = orZero (cpe row);
          alosV = orZero (alos row);
          revenueV = orZero (row_revenue row);
          m1 = m0\<lparr>revenue := revenue m0 + revenueV,
                  episodes := episodes m0 + orZero (row_episodes row),
                  records := records m0 + 1\<rparr>;
          m2 = (if cpeV > 0 then m1\<lparr>totalCPE := totalCPE m1 + cpeV, countCPE := countCPE m1 + 1\<rparr> else m1);
          m3 = (if alosV > 0 then m2\<lparr>totalALOS := totalALOS m2 + alosV, countALOS := countALOS m2 + 1\<rparr> else m2)
      in m3)"

definition Object_prototype_names :: "string list" where
  "Object_prototype_names =
     [''constructor'', ''__defineGetter__'', ''__defineSetter__'', ''hasOwnProperty'',
      ''__lookupGetter__'', ''__lookupSetter__'', ''isPrototypeOf'', ''propertyIsEnumerable'',
      ''toString'', ''valueOf'', ''__proto__'', ''toLocaleString'']"

definition addRow :: "dailyRow \<Rightarrow> (string \<rightharpoonup> metrics) \<Rightarrow> (string \<rightharpoonup> metrics)" where
  "addRow row stayTypeMetrics =
     (let stayType = stayTypeOf row
      in if stayType \<in> set Object_prototype_names then stayTypeMetrics
         else (let m0 = (case stayTypeMetrics stayType of
                           None \<Rightarrow> \<lparr>revenue = 0, episodes = 0, totalCPE = 0, countCPE = 0,
                                      totalALOS = 0, countALOS = 0, records = 0\<rparr>
                         | Some m \<Rightarrow> m)
               in stayTypeMetrics(stayType \<mapsto> updateMetrics row m0)))"

definition stayTypeMetrics :: "dailyRow list \<Rightarrow> (string \<rightharpoonup> metrics)" where
  "stayTypeMetrics dailyBudgetData = fold addRow dailyBudgetData Map.empty"

text \<open>
  \<^verbatim>\<open>avgCPE\<close> of a row of the metrics table:
  \<^verbatim>\<open>if (stayType === 'LTC' || stayType === 'Non-LTC') ... else ...\<close>.
\<close>

definition avgCPE :: "string \<Rightarrow> metrics \<Rightarrow> real" where
  "avgCPE stayType m =
     (if stayType = ''LTC'' \<or> stayType = ''Non-LTC''
      then (if countCPE m > 0 then totalCPE m / real (countCPE m) else 0)
      else (if episodes m > 0 then revenue m / episodes m else 0))"

definition avgALOS :: "metrics \<Rightarrow> real" where
  "avgALOS m = (if countALOS m > 0 then totalALOS m / real (countALOS m) else 0)"

text \<open>
  The metrics table has one row per key of \<^verbatim>\<open>stayTypeMetrics\<close>; this is the
  \<^verbatim>\<open>avgCPE\<close> of the row of a stay type, \<^term>\<open>None\<close> when the table has no such row.
\<close>

definition summaryCPE :: "dailyRow list \<Rightarrow> string \<Rightarrow> real option" where
  "summaryCPE dailyBudgetData stayType =
     map_option (avgCPE stayType) (stayTypeMetrics dailyBudgetData stayType)"

text \<open>The records of one stay type, and their positive \<^verbatim>\<open>cpe\<close> values.\<close>

definition rowsOf :: "dailyRow list \<Rightarrow> string \<Rightarrow> dailyRow list" where
  "rowsOf dailyBudgetData stayType = filter (\<lambda>row. stayTypeOf row = stayType) dailyBudgetData"

definition positiveCpes :: "dailyRow list \<Rightarrow> real list" where
  "positiveCpes rows = filter (\<lambda>c. c > 0) (map (\<lambda>row. orZero (cpe row)) rows)"

subsection \<open>Reading the table of the budget view\<close>

text \<open>
  The value that \<^verbatim>\<open>calculateMonthValues(branchId, m)\<close> assigns to a line item, and
  the raw read \<^verbatim>\<open>calculatedData[branchId][code][key]\<close> of a cell.
\<close>

definition monthValue :: "monthlyRevenueData \<Rightarrow> allocations \<Rightarrow> assumptions \<Rightarrow> nat \<Rightarrow> nat \<Rightarrow> string \<Rightarrow> real" where
  "monthValue mrd rta ad b m code =
     (case map_of (calculateMonthValues_values mrd rta ad b m) code of None \<Rightarrow> 0 | Some v \<Rightarrow> v)"

definition cell :: "calculatedData \<Rightarrow> nat \<Rightarrow> string \<Rightarrow> col \<Rightarrow> real option" where
  "cell calculatedData branchId code key =
     (case calculatedData branchId of
        None \<Rightarrow> None
      | Some items \<Rightarrow> (case items code of None \<Rightarrow> None | Some row \<Rightarrow> row key))"

text \<open>
  The row and the branch object that \<^verbatim>\<open>calculateAllBranchValues\<close> is shown to leave
  behind: the twelve month values and their sum, for each code of the catalog.
\<close>

definition budgetRow :: "monthlyRevenueData \<Rightarrow> allocations \<Rightarrow> assumptions \<Rightarrow> nat \<Rightarrow> string \<Rightarrow> (col \<rightharpoonup> real)" where
  "budgetRow mrd rta ad b code =
     (\<lambda>key. case key of
        month m \<Rightarrow> if m \<in> set [1..<13] then Some (monthValue mrd rta ad b m code) else None
      | fy_total \<Rightarrow> Some (sum_list (map (\<lambda>m. monthValue mrd rta ad b m code) [1..<13])))"

definition budgetItems :: "monthlyRevenueData \<Rightarrow> allocations \<Rightarrow> assumptions \<Rightarrow> nat \<Rightarrow> (string \<rightharpoonup> (col \<rightharpoonup> real))" where
  "budgetItems mrd rta ad b =
     (\<lambda>code. if code \<in> set LINE_ITEMS_CONFIG then Some (budgetRow mrd rta ad b code) else None)"

subsection \<open>The Calculation Engine as the specification words it\<close>

text \<open>
  Section 4.1 of the specification gives the cascade as seventeen formulas over the raw
  revenue, \<open>assumption(code)\<close> and \<open>allocation(code)\<close>. The definitions below follow
  those words, not the code: they are the reference that both call sites are compared with.
  Steps 2 to 8 take \<open>REV_SUB\<close> as their base, steps 9 to 17 take \<open>REV_NET\<close>.
\<close>

definition spec_DIS_SETTLEMENT :: "real \<Rightarrow> (string \<Rightarrow> real) \<Rightarrow> (string \<Rightarrow> real) \<Rightarrow> real" where
  "spec_DIS_SETTLEMENT REV_SUB assumption allocation =
     (REV_SUB * (assumption ''DIS_REJECTION_MOH'' / 100) * (allocation ''REV_TYPE_MOH'' / 100)
      + REV_SUB * (assumption ''DIS_REJECTION_INS'' / 100) * (allocation ''REV_TYPE_INSURANCE'' / 100))
     + REV_SUB * (assumption ''DIS_VOLUME'' / 100)
     + REV_SUB * (assumption ''DIS_EARLY_PAY'' / 100)"

definition spec_REV_NET :: "real \<Rightarrow> (string \<Rightarrow> real) \<Rightarrow> (string \<Rightarrow> real) \<Rightarrow> real" where
  "spec_REV_NET REV_SUB assumption allocation =
     REV_SUB - spec_DIS_SETTLEMENT REV_SUB assumption allocation"

definition spec_discounts :: "real \<Rightarrow> (string \<Rightarrow> real) \<Rightarrow> (string \<Rightarrow> real) \<Rightarrow> (string \<times> real) list" where
  "spec_discounts REV_SUB assumption allocation =
     [(''REV_SUB'', REV_SUB),
      (''DIS_REJECTION_MOH'',
         REV_SUB * (assumption ''DIS_REJECTION_MOH'' / 100) * (allocation ''REV_TYPE_MOH'' / 100)),
      (''DIS_REJECTION_INS'',
         REV_SUB * (assumption ''DIS_REJECTION_INS'' / 100) * (allocation ''REV_TYPE_INSURANCE'' / 100)),
      (''DIS_REJECTION'',
         REV_SUB * (assumption ''DIS_REJECTION_MOH'' / 100) * (allocation ''REV_TYPE_MOH'' / 100)
         + REV_SUB * (assumption ''DIS_REJECTION_INS'' / 100) * (allocation ''REV_TYPE_INSURANCE'' / 100)),
      (''DIS_VOLUME'', REV_SUB * (assumption ''DIS_VOLUME'' / 100)),
      (''DIS_EARLY_PAY'', REV_SUB * (assumption ''DIS_EARLY_PAY'' / 100)),
      (''DIS_SETTLEMENT'', spec_DIS_SETTLEMENT REV_SUB assumption allocation),
      (''REV_NET'', spec_REV_NET REV_SUB assumption allocation)]"

definition spec_direct_cost_codes :: "string list" where
  "spec_direct_cost_codes =
     [''DC_CONSUMABLES'', ''DC_MEDICINES'', ''DC_DOCTORS_FEE'', ''DC_EMPLOYEE'',
      ''DC_GOVT_FEES'', ''DC_INSURANCE'', ''DC_KITCHEN'', ''DC_MAINTENANCE'', ''DC_OTHER'',
      ''DC_REFERRAL'', ''DC_RENTAL'', ''DC_TRAINING'', ''DC_TRAVEL'', ''DC_UTILITIES'']"

definition spec_ga_codes :: "string list" where
  "spec_ga_codes =
     [''GA_GOVT_FEE'', ''GA_AUDIT'', ''GA_COMMUNICATION'', ''GA_ECL'', ''GA_OTHER'',
      ''GA_POSTAGE'', ''GA_PROFESSIONAL'', ''GA_SECURITY'', ''GA_TRAINING'', ''GA_EMPLOYEE'',
      ''GA_MARKETING'', ''GA_HO_CHARGES'']"

definition spec_pct :: "real \<Rightarrow> (string \<Rightarrow> real) \<Rightarrow> string \<Rightarrow> real" where
  "spec_pct REV_NET assumption code = REV_NET * (assumption code / 100)"

definition spec_total :: "real \<Rightarrow> (string \<Rightarrow> real) \<Rightarrow> string list \<Rightarrow> real" where
  "spec_total REV_NET assumption codes = sum_list (map (spec_pct REV_NET assumption) codes)"

definition spec_expenses :: "real \<Rightarrow> (string \<Rightarrow> real) \<Rightarrow> (string \<times> real) list" where
  "spec_expenses REV_NET assumption =
     (let TOTAL_DC = spec_total REV_NET assumption spec_direct_cost_codes;
          GROSS_PROFIT = REV_NET - TOTAL_DC;
          TOTAL_GA = spec_total REV_NET assumption spec_ga_codes;
          OTHER_INCOME = spec_pct REV_NET assumption ''OTHER_INCOME'';
          EBITDA = GROSS_PROFIT - TOTAL_GA + OTHER_INCOME;
          FINANCE_COST = spec_pct REV_NET assumption ''FINANCE_COST'';
          DEPRECIATION = spec_pct REV_NET assumption ''DEPRECIATION'';
          ZAKAT = spec_pct REV_NET assumption ''ZAKAT'';
          NET_PROFIT = EBITDA - FINANCE_COST - DEPRECIATION - ZAKAT;
          OCI = spec_pct REV_NET assumption ''OCI''
      in map (\<lambda>code. (code, spec_pct REV_NET assumption code)) spec_direct_cost_codes
         @ [(''TOTAL_DC'', TOTAL_DC), (''GROSS_PROFIT'', GROSS_PROFIT)]
         @ map (\<lambda>code. (code, spec_pct REV_NET assumption code)) spec_ga_codes
         @ [(''TOTAL_GA'', TOTAL_GA), (''OTHER_INCOME'', OTHER_INCOME), (''EBITDA'', EBITDA),
            (''FINANCE_COST'', FINANCE_COST), (''DEPRECIATION'', DEPRECIATION), (''ZAKAT'', ZAKAT),
            (''NET_PROFIT'', NET_PROFIT), (''OCI'', OCI), (''TOTAL_COMP_INCOME'', NET_PROFIT + OCI)])"

definition spec_cascade :: "real \<Rightarrow> (string \<Rightarrow> real) \<Rightarrow> (string \<Rightarrow> real) \<Rightarrow> (string \<times> real) list" where
  "spec_cascade REV_SUB assumption allocation =
     spec_discounts REV_SUB assumption allocation
     @ spec_expenses (spec_REV_NET REV_SUB assumption allocation) assumption"

definition compute :: "real \<Rightarrow> real \<Rightarrow> real \<Rightarrow> (string \<Rightarrow> real) \<Rightarrow> (string \<Rightarrow> real) \<Rightarrow> (string \<times> real) list" where
  "compute REV_IP REV_OP REV_ER assumption allocation =
     [(''REV_IP'', REV_IP), (''REV_OP'', REV_OP), (''REV_ER'', REV_ER)]
     @ spec_cascade (REV_IP + REV_OP + REV_ER) assumption allocation"

subsection \<open>The properties that the claims state of a table\<close>

text \<open>
  A table is read through a function from line-item codes to values: the editor's
  \<^verbatim>\<open>calculatedData[branchId]\<close>, or one month column of the budget view's.

  The line items whose formula is one percentage of net revenue: the direct costs, the
  G&A expenses, other income, finance cost, depreciation, zakat and OCI.
\<close>

definition percentOfNetCodes :: "string list" where
  "percentOfNetCodes =
     [''DC_CONSUMABLES'', ''DC_MEDICINES'', ''DC_DOCTORS_FEE'', ''DC_EMPLOYEE'',
      ''DC_GOVT_FEES'', ''DC_INSURANCE'', ''DC_KITCHEN'', ''DC_MAINTENANCE'', ''DC_OTHER'',
      ''DC_REFERRAL'', ''DC_RENTAL'', ''DC_TRAINING'', ''DC_TRAVEL'', ''DC_UTILITIES'',
      ''GA_GOVT_FEE'', ''GA_AUDIT'', ''GA_COMMUNICATION'', ''GA_ECL'', ''GA_OTHER'',
      ''GA_POSTAGE'', ''GA_PROFESSIONAL'', ''GA_SECURITY'', ''GA_TRAINING'', ''GA_EMPLOYEE'',
      ''GA_MARKETING'', ''GA_HO_CHARGES'',
      ''OTHER_INCOME'', ''FINANCE_COST'', ''DEPRECIATION'', ''ZAKAT'', ''OCI'']"

text \<open>
  The rejection items multiply \<open>REV_SUB\<close> by their own percentage and by a revenue-type
  allocation; every other percentage-driven item multiplies its base by one percentage.
\<close>

definition rejection_cross_terms ::
  "(string \<Rightarrow> real) \<Rightarrow> (string \<Rightarrow> real) \<Rightarrow> (string \<Rightarrow> real option) \<Rightarrow> bool" where
  "rejection_cross_terms assumption allocation V \<longleftrightarrow>
     (\<exists>sub net.
        V ''REV_SUB'' = Some sub
      \<and> V ''DIS_REJECTION_MOH'' =
          Some (sub * (assumption ''DIS_REJECTION_MOH'' / 100) * (allocation ''REV_TYPE_MOH'' / 100))
      \<and> V ''DIS_REJECTION_INS'' =
          Some (sub * (assumption ''DIS_REJECTION_INS'' / 100) * (allocation ''REV_TYPE_INSURANCE'' / 100))
      \<and> V ''DIS_VOLUME'' = Some (sub * (assumption ''DIS_VOLUME'' / 100))
      \<and> V ''DIS_EARLY_PAY'' = Some (sub * (assumption ''DIS_EARLY_PAY'' / 100))
      \<and> V ''REV_NET'' = Some net
      \<and> list_all (\<lambda>code. V code = Some (net * (assumption code / 100))) percentOfNetCodes)"

text \<open>The three identities of the profit lines.\<close>

definition profit_identities :: "(string \<Rightarrow> real option) \<Rightarrow> bool" where
  "profit_identities V \<longleftrightarrow>
     (\<exists>gross ga other ebitda finance dep zakat net oci.
        V ''GROSS_PROFIT'' = Some gross \<and> V ''TOTAL_GA'' = Some ga \<and> V ''OTHER_INCOME'' = Some other
      \<and> V ''EBITDA'' = Some ebitda \<and> ebitda = gross - ga + other
      \<and> V ''FINANCE_COST'' = Some finance \<and> V ''DEPRECIATION'' = Some dep \<and> V ''ZAKAT'' = Some zakat
      \<and> V ''NET_PROFIT'' = Some net \<and> net = ebitda - finance - dep - zakat
      \<and> V ''OCI'' = Some oci
      \<and> V ''TOTAL_COMP_INCOME'' = Some (net + oci))"

subsection \<open>The scenario of the specification\<close>

text \<open>
  Section 8 of the specification gives one worked period: revenue 100000, 50000 and 10000,
  rejection percentages 2 (MOH) and 3 (insurance) with allocations 40 and 50, volume
  discount 1, early-payment discount 0.5, and one direct cost at 10 percent. Here it is the
  data of branch 2: as the revenue of every month for the budget view, as the annual revenue
  for the editor, and, twelve times as large, as the annual revenue that the monthly figures
  add up to.
\<close>

definition scenario_revenue :: revenue where
  "scenario_revenue = \<lparr>IP = Some 100000, OP = Some 50000, ER = Some 10000\<rparr>"

definition scenario_revenueData :: revenueData where
  "scenario_revenueData = [2 \<mapsto> scenario_revenue]"

definition scenario_annual :: revenueData where
  "scenario_annual = [2 \<mapsto> \<lparr>IP = Some 1200000, OP = Some 600000, ER = Some 120000\<rparr>]"

definition scenario_monthly :: monthlyRevenueData where
  "scenario_monthly = [2 \<mapsto> map_of (map (\<lambda>m. (m, scenario_revenue)) [1..<13])]"

definition scenario_assumptions :: assumptions where
  "scenario_assumptions =
     [2 \<mapsto> [''DIS_REJECTION_MOH'' \<mapsto> 2, ''DIS_REJECTION_INS'' \<mapsto> 3, ''DIS_VOLUME'' \<mapsto> 1,
           ''DIS_EARLY_PAY'' \<mapsto> 0.5, ''DC_CONSUMABLES'' \<mapsto> 10]]"

definition scenario_allocations :: allocations where
  "scenario_allocations = [2 \<mapsto> [''REV_TYPE_MOH'' \<mapsto> 40, ''REV_TYPE_INSURANCE'' \<mapsto> 50]]"

subsection \<open>A second set of allocations\<close>

text \<open>
  The allocations of the scenario with the two codes added that the cascade never reads.
\<close>

definition scenario_allocations_cash :: allocations where
  "scenario_allocations_cash =
     [2 \<mapsto> [''REV_TYPE_MOH'' \<mapsto> 40, ''REV_TYPE_INSURANCE'' \<mapsto> 50,
           ''REV_TYPE_CASH'' \<mapsto> 7, ''REV_TYPE_OTHER_CREDIT'' \<mapsto> 3]]"

subsection \<open>Example data for the averages\<close>

text \<open>
  Allocations of \<open>REV_TYPE_MOH\<close> for four branches: 20, 40, 0 and -10; branches 5 and 6
  have none.
\<close>

definition example_allocations :: allocations where
  "example_allocations =
     [1 \<mapsto> [''REV_TYPE_MOH'' \<mapsto> 20], 2 \<mapsto> [''REV_TYPE_MOH'' \<mapsto> 40],
      3 \<mapsto> [''REV_TYPE_MOH'' \<mapsto> 0], 4 \<mapsto> [''REV_TYPE_MOH'' \<mapsto> - 10]]"

text \<open>
  Daily rows: three long-stay records with \<^verbatim>\<open>cpe\<close> 100, 300 and 0, and two outpatient
  records. For the long-stay records revenue over episodes is 9000 / 9, for the outpatient
  ones the mean of the \<^verbatim>\<open>cpe\<close> values is 999. The last record has a stay type
  that names an inherited property.
\<close>

definition example_daily :: "dailyRow list" where
  "example_daily =
     [\<lparr>stay_type = Some ''LTC'', cpe = Some 100, alos = Some 30, row_revenue = Some 3000, row_episodes = Some 3\<rparr>,
      \<lparr>stay_type = Some ''OP'', cpe = Some 999, alos = None, row_revenue = Some 600, row_episodes = Some 3\<rparr>,
      \<lparr>stay_type = Some ''LTC'', cpe = Some 300, alos = Some 50, row_revenue = Some 6000, row_episodes = Some 6\<rparr>,
      \<lparr>stay_type = Some ''OP'', cpe = Some 999, alos = None, row_revenue = Some 400, row_episodes = Some 1\<rparr>,
      \<lparr>stay_type = Some ''LTC'', cpe = Some 0, alos = None, row_revenue = None, row_episodes = None\<rparr>,
      \<lparr>stay_type = Some ''constructor'', cpe = None, alos = None, row_revenue = Some 100, row_episodes = Some 4\<rparr>]"

subsection \<open>The cascade in a given arithmetic\<close>

text \<open>
  A JavaScript number is a binary64 double, and \<^verbatim>\<open>+\<close>, \<^verbatim>\<open>-\<close>, \<^verbatim>\<open>*\<close> and
  \<^verbatim>\<open>/\<close> round their exact result to the nearest double. To say what the two cascades
  compute in that arithmetic, both are transcribed once more from their sources with the
  four operations and the literals \<^verbatim>\<open>0\<close> and \<^verbatim>\<open>100\<close> taken from a record: the
  order of the operations is that of the source expressions (\<^verbatim>\<open>a + b + c\<close> is
  \<^verbatim>\<open>(a + b) + c\<close>, \<^verbatim>\<open>x * (p / 100) * (q / 100)\<close> is
  \<^verbatim>\<open>(x * (p / 100)) * (q / 100)\<close>, a total starts at 0 and adds the values in the order
  of the code list).
\<close>

record 'n arith =
  fadd :: "'n \<Rightarrow> 'n \<Rightarrow> 'n"
  fsub :: "'n \<Rightarrow> 'n \<Rightarrow> 'n"
  fmul :: "'n \<Rightarrow> 'n \<Rightarrow> 'n"
  fdiv :: "'n \<Rightarrow> 'n \<Rightarrow> 'n"
  fzero :: 'n
  fhundred :: 'n

text \<open>\<^verbatim>\<open>{ IP, OP, ER }\<close> with numbers of the arithmetic.\<close>

record 'n revenueOf =
  IP_of :: "'n option"
  OP_of :: "'n option"
  ER_of :: "'n option"

text \<open>\<^verbatim>\<open>x || 0\<close> and the guarded reads, as in the exact model.\<close>

definition orZero_in :: "'n arith \<Rightarrow> 'n option \<Rightarrow> 'n" where
  "orZero_in A x = (case x of None \<Rightarrow> fzero A | Some v \<Rightarrow> v)"

definition assumption_value_in :: "'n arith \<Rightarrow> (nat \<rightharpoonup> (string \<rightharpoonup> 'n)) \<Rightarrow> nat \<Rightarrow> string \<Rightarrow> 'n" where
  "assumption_value_in A assumptionsData branchId code =
     (case assumptionsData branchId of
        None \<Rightarrow> fzero A
      | Some items \<Rightarrow> orZero_in A (items code))"

definition revTypePct_in :: "'n arith \<Rightarrow> (nat \<rightharpoonup> (string \<rightharpoonup> 'n)) \<Rightarrow> nat \<Rightarrow> string \<Rightarrow> 'n" where
  "revTypePct_in A revenueTypeAssumptions branchId code =
     (case revenueTypeAssumptions branchId of
        None \<Rightarrow> fzero A
      | Some types \<Rightarrow> orZero_in A (types code))"

definition annualRevenue_in ::
  "'n arith \<Rightarrow> (nat \<rightharpoonup> 'n revenueOf) \<Rightarrow> nat \<Rightarrow> ('n revenueOf \<Rightarrow> 'n option) \<Rightarrow> 'n" where
  "annualRevenue_in A revenueData branchId field =
     (case revenueData branchId of
        None \<Rightarrow> fzero A
      | Some r \<Rightarrow> orZero_in A (field r))"

definition monthRevenue_in ::
  "'n arith \<Rightarrow> (nat \<rightharpoonup> (nat \<rightharpoonup> 'n revenueOf)) \<Rightarrow> nat \<Rightarrow> nat \<Rightarrow> 'n revenueOf" where
  "monthRevenue_in A monthlyRevenueData branchId m =
     (case monthlyRevenueData branchId of
        None \<Rightarrow> \<lparr>IP_of = Some (fzero A), OP_of = Some (fzero A), ER_of = Some (fzero A)\<rparr>
      | Some monthData \<Rightarrow>
          (case monthData m of
             None \<Rightarrow> \<lparr>IP_of = Some (fzero A), OP_of = Some (fzero A), ER_of = Some (fzero A)\<rparr>
           | Some r \<Rightarrow> r))"

text \<open>
  The assignments of \<^verbatim>\<open>calculateAllValues\<close> for one branch
  (\<^verbatim>\<open>income-statement.js\<close>), in source order. \<open>pct code\<close> is
  \<^verbatim>\<open>(assumptionsData[branchId]?.[code]?.assumption_value || 0) / 100\<close>.
\<close>

definition calculateAllValues_branch_in ::
  "'n arith \<Rightarrow> (nat \<rightharpoonup> 'n revenueOf) \<Rightarrow> (nat \<rightharpoonup> (string \<rightharpoonup> 'n)) \<Rightarrow> (nat \<rightharpoonup> (string \<rightharpoonup> 'n))
     \<Rightarrow> nat \<Rightarrow> (string \<times> 'n) list" where
  "calculateAllValues_branch_in A revenueData revenueTypeAssumptions assumptionsData branchId =
    (let pct = (\<lambda>code. fdiv A (assumption_value_in A assumptionsData branchId code) (fhundred A));
         ipRevenue = annualRevenue_in A revenueData branchId IP_of;
         opRevenue = annualRevenue_in A revenueData branchId OP_of;
         erRevenue = annualRevenue_in A revenueData branchId ER_of;
         subRevenue = fadd A (fadd A ipRevenue opRevenue) erRevenue;
         mohRevTypePct = revTypePct_in A revenueTypeAssumptions branchId ''REV_TYPE_MOH'';
         insuranceRevTypePct = revTypePct_in A revenueTypeAssumptions branchId ''REV_TYPE_INSURANCE'';
         rejectionMohValue = fmul A (fmul A subRevenue (pct ''DIS_REJECTION_MOH''))
                                    (fdiv A mohRevTypePct (fhundred A));
         rejectionInsValue = fmul A (fmul A subRevenue (pct ''DIS_REJECTION_INS''))
                                    (fdiv A insuranceRevTypePct (fhundred A));
         totalRejection = fadd A rejectionMohValue rejectionInsValue;
         volumeValue = fmul A subRevenue (pct ''DIS_VOLUME'');
         earlyPayValue = fmul A subRevenue (pct ''DIS_EARLY_PAY'');
         totalDiscounts = fadd A (fadd A totalRejection volumeValue) earlyPayValue;
         netRevenue = fsub A subRevenue totalDiscounts;
         directCostCodes = [''DC_CONSUMABLES'', ''DC_MEDICINES'', ''DC_DOCTORS_FEE'', ''DC_EMPLOYEE'',
            ''DC_GOVT_FEES'', ''DC_INSURANCE'', ''DC_KITCHEN'', ''DC_MAINTENANCE'', ''DC_OTHER'',
            ''DC_REFERRAL'', ''DC_RENTAL'', ''DC_TRAINING'', ''DC_TRAVEL'', ''DC_UTILITIES''];
         directCosts = map (\<lambda>code. (code, fmul A netRevenue (pct code))) directCostCodes;
         totalDirectCosts = foldl (fadd A) (fzero A) (map snd directCosts);
         grossProfit = fsub A netRevenue totalDirectCosts;
         gaCodes = [''GA_GOVT_FEE'', ''GA_AUDIT'', ''GA_COMMUNICATION'', ''GA_ECL'', ''GA_OTHER'',
            ''GA_POSTAGE'', ''GA_PROFESSIONAL'', ''GA_SECURITY'', ''GA_TRAINING'', ''GA_EMPLOYEE'',
            ''GA_MARKETING'', ''GA_HO_CHARGES''];
         gaExpenses = map (\<lambda>code. (code, fmul A netRevenue (pct code))) gaCodes;
         totalGAExpenses = foldl (fadd A) (fzero A) (map snd gaExpenses);
         otherIncome = fmul A netRevenue (pct ''OTHER_INCOME'');
         ebitda = fadd A (fsub A grossProfit totalGAExpenses) otherIncome;
         financeCost = fmul A netRevenue (pct ''FINANCE_COST'');
         depreciation = fmul A netRevenue (pct ''DEPRECIATION'');
         zakat = fmul A netRevenue (pct ''ZAKAT'');
         netProfit = fsub A (fsub A (fsub A ebitda financeCost) depreciation) zakat;
         oci = fmul A netRevenue (pct ''OCI'')
     in [(''REV_SUB'', subRevenue),
         (''DIS_REJECTION_MOH'', rejectionMohValue),
         (''DIS_REJECTION_INS'', rejectionInsValue),
         (''DIS_REJECTION'', totalRejection),
         (''DIS_VOLUME'', volumeValue),
         (''DIS_EARLY_PAY'', earlyPayValue),
         (''DIS_SETTLEMENT'', totalDiscounts),
         (''REV_NET'', netRevenue)]
        @ directCosts @
        [(''TOTAL_DC'', totalDirectCosts),
         (''GROSS_PROFIT'', grossProfit)]
        @ gaExpenses @
        [(''TOTAL_GA'', totalGAExpenses),
         (''OTHER_INCOME'', otherIncome),
         (''EBITDA'', ebitda),
         (''FINANCE_COST'', financeCost),
         (''DEPRECIATION'', depreciation),
         (''ZAKAT'', zakat),
         (''NET_PROFIT'', netProfit),
         (''OCI'', oci),
         (''TOTAL_COMP_INCOME'', fadd A netProfit oci)])"

text \<open>
  The assignments of \<^verbatim>\<open>calculateMonthValues(branchId, month)\<close>
  (\<^verbatim>\<open>income-statement-budget.js\<close>), in source order.
\<close>

definition calculateMonthValues_values_in ::
  "'n arith \<Rightarrow> (nat \<rightharpoonup> (nat \<rightharpoonup> 'n revenueOf)) \<Rightarrow> (nat \<rightharpoonup> (string \<rightharpoonup> 'n)) \<Rightarrow> (nat \<rightharpoonup> (string \<rightharpoonup> 'n))
     \<Rightarrow> nat \<Rightarrow> nat \<Rightarrow> (string \<times> 'n) list" where
  "calculateMonthValues_values_in A monthlyRevenueData revenueTypeAssumptions assumptionsData branchId m =
    (let pct = (\<lambda>code. fdiv A (assumption_value_in A assumptionsData branchId code) (fhundred A));
         monthRev = monthRevenue_in A monthlyRevenueData branchId m;
         ipRevenue = orZero_in A (IP_of monthRev);
         opRevenue = orZero_in A (OP_of monthRev);
         erRevenue = orZero_in A (ER_of monthRev);
         subRevenue = fadd A (fadd A ipRevenue opRevenue) erRevenue;
         mohRevTypePct = revTypePct_in A revenueTypeAssumptions branchId ''REV_TYPE_MOH'';
         insuranceRevTypePct = revTypePct_in A revenueTypeAssumptions branchId ''REV_TYPE_INSURANCE'';
         rejectionMohValue = fmul A (fmul A subRevenue (pct ''DIS_REJECTION_MOH''))
                                    (fdiv A mohRevTypePct (fhundred A));
         rejectionInsValue = fmul A (fmul A subRevenue (pct ''DIS_REJECTION_INS''))
                                    (fdiv A insuranceRevTypePct (fhundred A));
         totalRejection = fadd A rejectionMohValue rejectionInsValue;
         volumeValue = fmul A subRevenue (pct ''DIS_VOLUME'');
         earlyPayValue = fmul A subRevenue (pct ''DIS_EARLY_PAY'');
         totalDiscounts = fadd A (fadd A totalRejection volumeValue) earlyPayValue;
         netRevenue = fsub A subRevenue totalDiscounts;
         directCostCodes = [''DC_CONSUMABLES'', ''DC_MEDICINES'', ''DC_DOCTORS_FEE'', ''DC_EMPLOYEE'',
            ''DC_GOVT_FEES'', ''DC_INSURANCE'', ''DC_KITCHEN'', ''DC_MAINTENANCE'', ''DC_OTHER'',
            ''DC_REFERRAL'', ''DC_RENTAL'', ''DC_TRAINING'', ''DC_TRAVEL'', ''DC_UTILITIES''];
         directCosts = map (\<lambda>code. (code, fmul A netRevenue (pct code))) directCostCodes;
         totalDirectCosts = foldl (fadd A) (fzero A) (map snd directCosts);
         grossProfit = fsub A netRevenue totalDirectCosts;
         gaCodes = [''GA_GOVT_FEE'', ''GA_AUDIT'', ''GA_COMMUNICATION'', ''GA_ECL'', ''GA_OTHER'',
            ''GA_POSTAGE'', ''GA_PROFESSIONAL'', ''GA_SECURITY'', ''GA_TRAINING'', ''GA_EMPLOYEE'',
            ''GA_MARKETING'', ''GA_HO_CHARGES''];
         gaExpenses = map (\<lambda>code. (code, fmul A netRevenue (pct code))) gaCodes;
         totalGAExpenses = foldl (fadd A) (fzero A) (map snd gaExpenses);
         otherIncome = fmul A netRevenue (pct ''OTHER_INCOME'');
         ebitda = fadd A (fsub A grossProfit totalGAExpenses) otherIncome;
         financeCost = fmul A netRevenue (pct ''FINANCE_COST'');
         depreciation = fmul A netRevenue (pct ''DEPRECIATION'');
         zakat = fmul A netRevenue (pct ''ZAKAT'');
         netProfit = fsub A (fsub A (fsub A ebitda financeCost) depreciation) zakat;
         oci = fmul A netRevenue (pct ''OCI'')
     in [(''REV_IP'', ipRevenue),
         (''REV_OP'', opRevenue),
         (''REV_ER'', erRevenue),
         (''REV_SUB'', subRevenue),
         (''DIS_REJECTION_MOH'', rejectionMohValue),
         (''DIS_REJECTION_INS'', rejectionInsValue),
         (''DIS_REJECTION'', totalRejection),
         (''DIS_VOLUME'', volumeValue),
         (''DIS_EARLY_PAY'', earlyPayValue),
         (''DIS_SETTLEMENT'', totalDiscounts),
         (''REV_NET'', netRevenue)]
        @ directCosts @
        [(''TOTAL_DC'', totalDirectCosts),
         (''GROSS_PROFIT'', grossProfit)]
        @ gaExpenses @
        [(''TOTAL_GA'', totalGAExpenses),
         (''OTHER_INCOME'', otherIncome),
         (''EBITDA'', ebitda),
         (''FINANCE_COST'', financeCost),
         (''DEPRECIATION'', depreciation),
         (''ZAKAT'', zakat),
         (''NET_PROFIT'', netProfit),
         (''OCI'', oci),
         (''TOTAL_COMP_INCOME'', fadd A netProfit oci)])"

text \<open>
  The fiscal total of a line item in \<^verbatim>\<open>calculateAllBranchValues\<close>: the month cells
  hold what \<^verbatim>\<open>calculateMonthValues\<close> stored, and
  \<^verbatim>\<open>fyTotal += calculatedData[branchId][item.code][`month_${m}`] || 0\<close> adds them from 0
  in the order of the months. (The table around these values does no arithmetic; the exact
  model has it in full.) \<open>storedValue_in\<close> is the read of a stored value.
\<close>

definition storedValue_in :: "'n arith \<Rightarrow> (string \<times> 'n) list \<Rightarrow> string \<Rightarrow> 'n" where
  "storedValue_in A ws code = orZero_in A (map_of ws code)"

definition fy_total_in ::
  "'n arith \<Rightarrow> (nat \<rightharpoonup> (nat \<rightharpoonup> 'n revenueOf)) \<Rightarrow> (nat \<rightharpoonup> (string \<rightharpoonup> 'n)) \<Rightarrow> (nat \<rightharpoonup> (string \<rightharpoonup> 'n))
     \<Rightarrow> nat \<Rightarrow> string \<Rightarrow> 'n" where
  "fy_total_in A monthlyRevenueData revenueTypeAssumptions assumptionsData branchId code =
     foldl (\<lambda>fyTotal m. fadd A fyTotal
              (storedValue_in A
                 (calculateMonthValues_values_in A monthlyRevenueData revenueTypeAssumptions assumptionsData
                    branchId m) code))
       (fzero A) [1..<13]"

text \<open>The twelve monthly revenues of a care type, as \<^verbatim>\<open>calculateMonthValues\<close> reads them.\<close>

definition monthlyRevenues_in ::
  "'n arith \<Rightarrow> (nat \<rightharpoonup> (nat \<rightharpoonup> 'n revenueOf)) \<Rightarrow> nat \<Rightarrow> ('n revenueOf \<Rightarrow> 'n option) \<Rightarrow> 'n list" where
  "monthlyRevenues_in A monthlyRevenueData branchId field =
     map (\<lambda>m. orZero_in A (field (monthRevenue_in A monthlyRevenueData branchId m))) [1..<13]"

subsection \<open>Binary64\<close>

text \<open>
  A finite double is the rational number it denotes. \<open>rnd64\<close> rounds a rational to the
  nearest double, ties to the even significand: 53 significant bits, the exponent of the
  last bit not below -1074 (the subnormal numbers). Overflow to \<^verbatim>\<open>Infinity\<close> and
  \<^verbatim>\<open>NaN\<close> are not modelled: the numbers used below are far inside the range.
  Each operation is the exact operation followed by \<open>rnd64\<close>, as IEEE 754 defines it.
\<close>

definition pow2 :: "int \<Rightarrow> rat" where
  "pow2 e = (if e \<ge> 0 then 2 ^ nat e else 1 / 2 ^ nat (- e))"

definition roundHalfEven :: "rat \<Rightarrow> int" where
  "roundHalfEven y =
     (let f = \<lfloor>y\<rfloor>; d = y - of_int f
      in if d < 1 / 2 then f else if d > 1 / 2 then f + 1 else if even f then f else f + 1)"

text \<open>\<open>\<lfloor>log\<^sub>2 \<bar>x\<bar>\<rfloor>\<close> for \<open>x \<noteq> 0\<close>, from the bit lengths of numerator and denominator.\<close>

definition ilog2 :: "rat \<Rightarrow> int" where
  "ilog2 x =
     (let pq = quotient_of \<bar>x\<bar>; k = bitlen (fst pq) - bitlen (snd pq)
      in if pow2 k \<le> \<bar>x\<bar> then k else k - 1)"

definition rnd64 :: "rat \<Rightarrow> rat" where
  "rnd64 x =
     (if x = 0 then 0
      else (let e = max (ilog2 x - 52) (- 1074)
            in of_int (roundHalfEven (x / pow2 e)) * pow2 e))"

definition binary64 :: "rat arith" where
  "binary64 =
     \<lparr>fadd = (\<lambda>x y. rnd64 (x + y)), fsub = (\<lambda>x y. rnd64 (x - y)),
      fmul = (\<lambda>x y. rnd64 (x * y)), fdiv = (\<lambda>x y. rnd64 (x / y)),
      fzero = 0, fhundred = 100\<rparr>"

text \<open>The arithmetic of the exact model.\<close>

definition exact :: "real arith" where
  "exact = \<lparr>fadd = (+), fsub = (-), fmul = (*), fdiv = (/), fzero = 0, fhundred = 100\<rparr>"

definition revenue_of :: "revenue \<Rightarrow> real revenueOf" where
  "revenue_of r = \<lparr>IP_of = IP r, OP_of = OP r, ER_of = ER r\<rparr>"

text \<open>
  Twelve months of inpatient revenue 1000 for branch 2, the annual figure 12000 that they
  add up to, and a volume discount of 7 percent.
\<close>

definition rounding_monthly :: "nat \<rightharpoonup> (nat \<rightharpoonup> rat revenueOf)" where
  "rounding_monthly =
     [2 \<mapsto> map_of (map (\<lambda>m. (m, \<lparr>IP_of = Some 1000, OP_of = Some 0, ER_of = Some 0\<rparr>)) [1..<13])]"

definition rounding_annual :: "nat \<rightharpoonup> rat revenueOf" where
  "rounding_annual = [2 \<mapsto> \<lparr>IP_of = Some 12000, OP_of = Some 0, ER_of = Some 0\<rparr>]"

definition rounding_assumptions :: "nat \<rightharpoonup> (string \<rightharpoonup> rat)" where
  "rounding_assumptions = [2 \<mapsto> [''DIS_VOLUME'' \<mapsto> 7]]"

definition rounding_allocations :: "nat \<rightharpoonup> (string \<rightharpoonup> rat)" where
  "rounding_allocations = Map.empty"

section \<open>Properties\<close>

subsection \<open>Both call sites compute the cascade of the specification\<close>

lemma orZero_simps [simp]: "orZero None = 0" "orZero (Some v) = v"
  by (simp_all add: orZero_def)

lemma foldl_plus_sum_list: "foldl (+) a xs = a + sum_list (xs :: real list)"
  by (induction xs arbitrary: a) (simp_all add: add.assoc)

lemma editor_refines:
  "calculateAllValues_branch rd rta ad b =
     spec_cascade (annualRevenue rd b IP + annualRevenue rd b OP + annualRevenue rd b ER)
       (assumption_value ad b) (revTypePct rta b)"
  unfolding calculateAllValues_branch_def spec_cascade_def spec_discounts_def spec_expenses_def
    spec_REV_NET_def spec_DIS_SETTLEMENT_def spec_total_def spec_pct_def
    spec_direct_cost_codes_def spec_ga_codes_def Let_def
  by (simp add: foldl_plus_sum_list)

lemma budget_refines:
  "calculateMonthValues_values mrd rta ad b m =
     compute (orZero (IP (monthRevenue mrd b m))) (orZero (OP (monthRevenue mrd b m)))
       (orZero (ER (monthRevenue mrd b m))) (assumption_value ad b) (revTypePct rta b)"
  unfolding calculateMonthValues_values_def compute_def spec_cascade_def spec_discounts_def spec_expenses_def
    spec_REV_NET_def spec_DIS_SETTLEMENT_def spec_total_def spec_pct_def
    spec_direct_cost_codes_def spec_ga_codes_def Let_def
  by (simp add: foldl_plus_sum_list)

lemma keys_spec_cascade:
  "map fst (spec_cascade s a r) = drop 3 LINE_ITEMS_CONFIG"
  by (simp add: spec_cascade_def spec_discounts_def spec_expenses_def Let_def
      spec_direct_cost_codes_def spec_ga_codes_def LINE_ITEMS_CONFIG_def)

lemma keys_compute:
  "map fst (compute i p e a r) = LINE_ITEMS_CONFIG"
  by (simp add: compute_def keys_spec_cascade) (simp add: LINE_ITEMS_CONFIG_def)

lemma distinct_LINE_ITEMS_CONFIG: "distinct LINE_ITEMS_CONFIG"
  by (simp add: LINE_ITEMS_CONFIG_def)

lemma forEach_setCell:
  assumes "cd b = Some items" "fst ` set ws \<subseteq> dom items" "distinct (map fst ws)"
  shows "forEach (setCell b k) ws cd =
     Some (cd(b \<mapsto> (\<lambda>code. map_option (\<lambda>row. case map_of ws code of None \<Rightarrow> row | Some v \<Rightarrow> row(k \<mapsto> v))
                               (items code))))"
  using assms
proof (induction ws arbitrary: cd items)
  case Nil
  have "(\<lambda>code. map_option (\<lambda>row. row) (items code)) = items"
    by (rule ext) (simp add: option.map_ident)
  with Nil show ?case by (simp add: fun_upd_idem)
next
  case (Cons w ws)
  obtain c v where w: "w = (c, v)" by (cases w)
  from Cons.prems w obtain row where row: "items c = Some row" by auto
  let ?items' = "items(c \<mapsto> row(k \<mapsto> v))"
  let ?cd' = "cd(b \<mapsto> ?items')"
  have step: "setCell b k w cd = Some ?cd'"
    using Cons.prems(1) row w by (simp add: setCell_def)
  let ?f = "\<lambda>ws code row. case map_of ws code of None \<Rightarrow> row | Some v \<Rightarrow> row(k \<mapsto> v)"
  have eq: "(\<lambda>code. map_option (?f ws code) (?items' code))
      = (\<lambda>code. map_option (?f (w # ws) code) (items code))"
  proof (rule ext)
    fix code
    have "map_of ws c = None" using Cons.prems(3) w by (simp add: map_of_eq_None_iff)
    then show "map_option (?f ws code) (?items' code) = map_option (?f (w # ws) code) (items code)"
      using row w by (cases "code = c") simp_all
  qed
  have "forEach (setCell b k) (w # ws) cd = forEach (setCell b k) ws ?cd'"
    using step by simp
  also have "\<dots> = Some (?cd'(b \<mapsto> (\<lambda>code. map_option (?f ws code) (?items' code))))"
    using Cons.prems w by (intro Cons.IH) auto
  also have "?cd'(b \<mapsto> (\<lambda>code. map_option (?f ws code) (?items' code)))
      = cd(b \<mapsto> (\<lambda>code. map_option (?f ws code) (?items' code)))"
    by (rule fun_upd_upd)
  finally show ?case by (simp only: eq)
qed


lemma keys_month_values:
  "map fst (calculateMonthValues_values mrd rta ad b m) = LINE_ITEMS_CONFIG"
  by (simp add: budget_refines keys_compute)

lemma map_of_month_values:
  "code \<in> set LINE_ITEMS_CONFIG \<Longrightarrow>
   map_of (calculateMonthValues_values mrd rta ad b m) code = Some (monthValue mrd rta ad b m code)"
proof -
  assume "code \<in> set LINE_ITEMS_CONFIG"
  then have "code \<in> fst ` set (calculateMonthValues_values mrd rta ad b m)"
    using keys_month_values [of mrd rta ad b m] by (metis set_map)
  then obtain v where "map_of (calculateMonthValues_values mrd rta ad b m) code = Some v"
    by (metis map_of_eq_None_iff not_Some_eq)
  then show ?thesis by (simp add: monthValue_def)
qed

lemma calculateMonthValues_eq:
  assumes "cd b = Some items" "set LINE_ITEMS_CONFIG \<subseteq> dom items"
  shows "calculateMonthValues mrd rta ad b m cd =
     Some (cd(b \<mapsto> (\<lambda>code. map_option
        (\<lambda>row. if code \<in> set LINE_ITEMS_CONFIG then row(month m \<mapsto> monthValue mrd rta ad b m code) else row)
        (items code))))"
proof -
  let ?V = "calculateMonthValues_values mrd rta ad b m"
  have "calculateMonthValues mrd rta ad b m cd =
     Some (cd(b \<mapsto> (\<lambda>code. map_option (\<lambda>row. case map_of ?V code of None \<Rightarrow> row | Some v \<Rightarrow> row(month m \<mapsto> v))
                               (items code))))"
    unfolding calculateMonthValues_def
    using assms keys_month_values [of mrd rta ad b m] distinct_LINE_ITEMS_CONFIG
    by (intro forEach_setCell) (simp_all flip: set_map)
  moreover have "(\<lambda>code. map_option (\<lambda>row. case map_of ?V code of None \<Rightarrow> row | Some v \<Rightarrow> row(month m \<mapsto> v)) (items code))
     = (\<lambda>code. map_option
        (\<lambda>row. if code \<in> set LINE_ITEMS_CONFIG then row(month m \<mapsto> monthValue mrd rta ad b m code) else row)
        (items code))"
  proof (rule ext)
    fix code
    show "map_option (\<lambda>row. case map_of ?V code of None \<Rightarrow> row | Some v \<Rightarrow> row(month m \<mapsto> v)) (items code)
       = map_option (\<lambda>row. if code \<in> set LINE_ITEMS_CONFIG then row(month m \<mapsto> monthValue mrd rta ad b m code) else row)
        (items code)"
    proof (cases "code \<in> set LINE_ITEMS_CONFIG")
      case True
      then show ?thesis by (simp add: map_of_month_values)
    next
      case False
      then have "code \<notin> fst ` set ?V"
        using keys_month_values [of mrd rta ad b m] by (metis set_map)
      then have "map_of ?V code = None" by (simp add: map_of_eq_None_iff)
      with False show ?thesis by simp
    qed
  qed
  ultimately show ?thesis by (simp only:)
qed

lemma forEach_months:
  assumes "cd b = Some items" "set LINE_ITEMS_CONFIG \<subseteq> dom items"
  shows "forEach (calculateMonthValues mrd rta ad b) ms cd =
     Some (cd(b \<mapsto> (\<lambda>code. map_option
        (\<lambda>row. if code \<in> set LINE_ITEMS_CONFIG
               then fold (\<lambda>m r. r(month m \<mapsto> monthValue mrd rta ad b m code)) ms row else row)
        (items code))))"
  using assms
proof (induction ms arbitrary: cd items)
  case Nil
  have "(\<lambda>code. map_option (\<lambda>row. if code \<in> set LINE_ITEMS_CONFIG
               then fold (\<lambda>m r. r(month m \<mapsto> monthValue mrd rta ad b m code)) [] row else row) (items code)) = items"
  proof (rule ext)
    fix code
    show "map_option (\<lambda>row. if code \<in> set LINE_ITEMS_CONFIG
               then fold (\<lambda>m r. r(month m \<mapsto> monthValue mrd rta ad b m code)) [] row else row) (items code) = items code"
      by (cases "items code") simp_all
  qed
  then show ?case using Nil.prems(1) by (simp only: forEach.simps fun_upd_idem)
next
  case (Cons m ms)
  let ?g = "\<lambda>code row. if code \<in> set LINE_ITEMS_CONFIG then row(month m \<mapsto> monthValue mrd rta ad b m code) else row"
  let ?h = "\<lambda>ms code row. if code \<in> set LINE_ITEMS_CONFIG
               then fold (\<lambda>m r. r(month m \<mapsto> monthValue mrd rta ad b m code)) ms row else row"
  let ?items' = "\<lambda>code. map_option (?g code) (items code)"
  let ?cd' = "cd(b \<mapsto> ?items')"
  have step: "calculateMonthValues mrd rta ad b m cd = Some ?cd'"
    using Cons.prems by (rule calculateMonthValues_eq)
  have dom: "set LINE_ITEMS_CONFIG \<subseteq> dom ?items'"
    using Cons.prems(2) by (auto simp: dom_def)
  have eq: "(\<lambda>code. map_option (?h ms code) (?items' code)) = (\<lambda>code. map_option (?h (m # ms) code) (items code))"
  proof (rule ext)
    fix code
    show "map_option (?h ms code) (?items' code) = map_option (?h (m # ms) code) (items code)"
      by (cases "code \<in> set LINE_ITEMS_CONFIG") (simp_all add: option.map_comp comp_def)
  qed
  have "forEach (calculateMonthValues mrd rta ad b) (m # ms) cd
      = forEach (calculateMonthValues mrd rta ad b) ms ?cd'"
    using step by simp
  also have "\<dots> = Some (?cd'(b \<mapsto> (\<lambda>code. map_option (?h ms code) (?items' code))))"
    using dom by (intro Cons.IH) auto
  also have "?cd'(b \<mapsto> (\<lambda>code. map_option (?h ms code) (?items' code)))
      = cd(b \<mapsto> (\<lambda>code. map_option (?h ms code) (?items' code)))"
    by (rule fun_upd_upd)
  finally show ?case by (simp only: eq)
qed


lemma forEach_setFyTotal:
  assumes "cd b = Some items" "set cs \<subseteq> dom items" "distinct cs"
  shows "forEach (setFyTotal b) cs cd =
     Some (cd(b \<mapsto> (\<lambda>code. map_option
        (\<lambda>row. if code \<in> set cs
               then row(fy_total \<mapsto> foldl (\<lambda>acc m. acc + orZero (row (month m))) 0 [1..<13]) else row)
        (items code))))"
  using assms
proof (induction cs arbitrary: cd items)
  case Nil
  have "(\<lambda>code. map_option (\<lambda>row. if code \<in> set []
               then row(fy_total \<mapsto> foldl (\<lambda>acc m. acc + orZero (row (month m))) 0 [1..<13]) else row)
        (items code)) = items"
  proof (rule ext)
    fix code
    show "map_option (\<lambda>row. if code \<in> set []
               then row(fy_total \<mapsto> foldl (\<lambda>acc m. acc + orZero (row (month m))) 0 [1..<13]) else row)
        (items code) = items code"
      by (cases "items code") simp_all
  qed
  then show ?case using Nil.prems(1) by (simp only: forEach.simps fun_upd_idem)
next
  case (Cons c cs)
  let ?F = "\<lambda>row. foldl (\<lambda>acc m. acc + orZero (row (month m))) 0 [1..<13]"
  let ?h = "\<lambda>cs code row. if code \<in> set cs then row(fy_total \<mapsto> ?F row) else row"
  from Cons.prems obtain row where row: "items c = Some row" by auto
  let ?items' = "items(c \<mapsto> row(fy_total \<mapsto> ?F row))"
  let ?cd' = "cd(b \<mapsto> ?items')"
  have step: "setFyTotal b c cd = Some ?cd'"
    using Cons.prems(1) row by (simp add: setFyTotal_def)
  have eq: "(\<lambda>code. map_option (?h cs code) (?items' code)) = (\<lambda>code. map_option (?h (c # cs) code) (items code))"
  proof (rule ext)
    fix code
    show "map_option (?h cs code) (?items' code) = map_option (?h (c # cs) code) (items code)"
      using row Cons.prems(3) by (cases "code = c") auto
  qed
  have "forEach (setFyTotal b) (c # cs) cd = forEach (setFyTotal b) cs ?cd'"
    using step by simp
  also have "\<dots> = Some (?cd'(b \<mapsto> (\<lambda>code. map_option (?h cs code) (?items' code))))"
    using Cons.prems by (intro Cons.IH) auto
  also have "?cd'(b \<mapsto> (\<lambda>code. map_option (?h cs code) (?items' code)))
      = cd(b \<mapsto> (\<lambda>code. map_option (?h cs code) (?items' code)))"
    by (rule fun_upd_upd)
  finally show ?case by (simp only: eq)
qed

lemma initItems_eq:
  "initItems = (\<lambda>code. if code \<in> set LINE_ITEMS_CONFIG then Some initRow else None)"
proof -
  have "fold (\<lambda>code items. items(code \<mapsto> v)) cs m0 = (\<lambda>code. if code \<in> set cs then Some v else m0 code)"
    for cs and v :: "col \<rightharpoonup> real" and m0 :: "string \<rightharpoonup> (col \<rightharpoonup> real)"
    by (induction cs arbitrary: m0) (auto simp: fun_eq_iff)
  then show ?thesis by (simp add: initItems_def)
qed

lemma fold_month_upd:
  "fold (\<lambda>m r. r(month m \<mapsto> f m)) ms row =
     (\<lambda>key. case key of month m \<Rightarrow> if m \<in> set ms then Some (f m) else row (month m)
                       | fy_total \<Rightarrow> row fy_total)"
  if "distinct ms"
  using that
proof (induction ms arbitrary: row)
  case Nil
  show ?case by (auto simp: fun_eq_iff split: col.splits)
next
  case (Cons m ms)
  then show ?case by (auto simp: fun_eq_iff split: col.splits)
qed

lemma initRow_eq:
  "initRow = (\<lambda>key. case key of month m \<Rightarrow> if m \<in> set [1..<13] then Some 0 else None
                       | fy_total \<Rightarrow> Some 0)"
  unfolding initRow_def
  by (subst fold_month_upd) (auto simp: fun_eq_iff split: col.splits)

lemma foldl_plus_map: "foldl (\<lambda>acc m. acc + g m) a ms = a + sum_list (map g ms)"
  for a :: real
  by (induction ms arbitrary: a) (simp_all add: add.assoc)

lemma final_row:
  assumes "code \<in> set LINE_ITEMS_CONFIG"
  shows "(let row = fold (\<lambda>m r. r(month m \<mapsto> monthValue mrd rta ad b m code)) [1..<13] initRow
          in row(fy_total \<mapsto> foldl (\<lambda>acc m. acc + orZero (row (month m))) 0 [1..<13]))
         = budgetRow mrd rta ad b code"
proof -
  let ?mv = "\<lambda>m. monthValue mrd rta ad b m code"
  let ?row = "fold (\<lambda>m r. r(month m \<mapsto> ?mv m)) [1..<13] initRow"
  have row: "?row = (\<lambda>key. case key of month m \<Rightarrow> if m \<in> set [1..<13] then Some (?mv m) else None
                       | fy_total \<Rightarrow> Some 0)"
    by (subst fold_month_upd) (auto simp: initRow_eq fun_eq_iff split: col.splits)
  have "foldl (\<lambda>acc m. acc + orZero (?row (month m))) 0 [1..<13]
        = sum_list (map (\<lambda>m. orZero (?row (month m))) [1..<13])"
    by (simp only: foldl_plus_map add_0)
  also have "map (\<lambda>m. orZero (?row (month m))) [1..<13] = map ?mv [1..<13]"
    by (rule map_cong [OF refl]) (simp only: row, simp)
  finally have fy: "foldl (\<lambda>acc m. acc + orZero (?row (month m))) 0 [1..<13] = sum_list (map ?mv [1..<13])" .
  show ?thesis
    unfolding Let_def fy budgetRow_def
    by (simp only: row) (auto simp: fun_eq_iff split: col.splits)
qed


lemma calculateAllBranchValues_branch_eq:
  "calculateAllBranchValues_branch mrd rta ad b cd = Some (cd(b \<mapsto> budgetItems mrd rta ad b))"
proof -
  let ?mv = "\<lambda>m code. monthValue mrd rta ad b m code"
  let ?F = "\<lambda>row. foldl (\<lambda>acc m. acc + orZero (row (month m))) 0 [1..<13]"
  let ?g = "\<lambda>code row. if code \<in> set LINE_ITEMS_CONFIG
               then fold (\<lambda>m r. r(month m \<mapsto> ?mv m code)) [1..<13] row else row"
  let ?h = "\<lambda>code row. if code \<in> set LINE_ITEMS_CONFIG then row(fy_total \<mapsto> ?F row) else row"
  let ?cd1 = "cd(b \<mapsto> initItems)"
  let ?items2 = "\<lambda>code. map_option (?g code) (initItems code)"
  let ?cd2 = "cd(b \<mapsto> ?items2)"
  let ?items3 = "\<lambda>code. map_option (?h code) (?items2 code)"
  have dom1: "set LINE_ITEMS_CONFIG \<subseteq> dom initItems"
    by (auto simp: initItems_eq)
  have "forEach (calculateMonthValues mrd rta ad b) [1..<13] ?cd1 = Some (?cd1(b \<mapsto> ?items2))"
    using dom1 by (intro forEach_months) simp_all
  then have months: "forEach (calculateMonthValues mrd rta ad b) [1..<13] ?cd1 = Some ?cd2"
    by (simp only: fun_upd_upd)
  have dom2: "set LINE_ITEMS_CONFIG \<subseteq> dom ?items2"
    by (auto simp: initItems_eq)
  have "forEach (setFyTotal b) LINE_ITEMS_CONFIG ?cd2 = Some (?cd2(b \<mapsto> ?items3))"
    using dom2 distinct_LINE_ITEMS_CONFIG by (intro forEach_setFyTotal) simp_all
  then have fy: "forEach (setFyTotal b) LINE_ITEMS_CONFIG ?cd2 = Some (cd(b \<mapsto> ?items3))"
    by (simp only: fun_upd_upd)
  have items3: "?items3 = budgetItems mrd rta ad b"
  proof (rule ext)
    fix code
    show "?items3 code = budgetItems mrd rta ad b code"
    proof (cases "code \<in> set LINE_ITEMS_CONFIG")
      case True
      then show ?thesis
        using final_row [OF True, of mrd rta ad b]
        by (simp add: initItems_eq budgetItems_def Let_def)
    next
      case False
      then show ?thesis by (simp add: initItems_eq budgetItems_def)
    qed
  qed
  show ?thesis
    unfolding calculateAllBranchValues_branch_def
    by (simp only: bind.bind_lunit months fy items3)
qed

lemma forEach_branches:
  "forEach (calculateAllBranchValues_branch mrd rta ad) bs cd =
     Some (\<lambda>b. if b \<in> set bs then Some (budgetItems mrd rta ad b) else cd b)"
proof (induction bs arbitrary: cd)
  case Nil
  show ?case by simp
next
  case (Cons b bs)
  have "forEach (calculateAllBranchValues_branch mrd rta ad) (b # bs) cd
      = forEach (calculateAllBranchValues_branch mrd rta ad) bs (cd(b \<mapsto> budgetItems mrd rta ad b))"
    by (simp only: forEach.simps calculateAllBranchValues_branch_eq option.case)
  also have "\<dots> = Some (\<lambda>b'. if b' \<in> set bs then Some (budgetItems mrd rta ad b')
                          else (cd(b \<mapsto> budgetItems mrd rta ad b)) b')"
    by (rule Cons.IH)
  also have "(\<lambda>b'. if b' \<in> set bs then Some (budgetItems mrd rta ad b')
                          else (cd(b \<mapsto> budgetItems mrd rta ad b)) b')
      = (\<lambda>b'. if b' \<in> set (b # bs) then Some (budgetItems mrd rta ad b') else cd b')"
    by (auto simp: fun_eq_iff)
  finally show ?case .
qed

lemma calculateAllBranchValues_eq:
  "calculateAllBranchValues mrd rta ad selected cd =
     Some (\<lambda>b. if b \<in> set (getSelectedBranches selected) then Some (budgetItems mrd rta ad b) else cd b)"
  by (simp add: calculateAllBranchValues_def forEach_branches)

subsection \<open>The editor's table\<close>

lemma assign_eq:
  "distinct (map fst ws) \<Longrightarrow> assign ws m = m ++ map_of ws"
proof (induction ws arbitrary: m)
  case Nil
  show ?case by (simp add: assign_def)
next
  case (Cons w ws)
  have none: "map_of ws (fst w) = None" using Cons.prems by (simp add: map_of_eq_None_iff)
  have "assign (w # ws) m = assign ws (m(fst w \<mapsto> snd w))"
    by (simp add: assign_def)
  also have "\<dots> = m(fst w \<mapsto> snd w) ++ map_of ws"
    using Cons.prems by (intro Cons.IH) simp
  also have "\<dots> = m ++ map_of (w # ws)"
  proof (rule ext)
    fix k
    show "(m(fst w \<mapsto> snd w) ++ map_of ws) k = (m ++ map_of (w # ws)) k"
      using none by (cases "k = fst w") (simp_all add: map_add_def split: option.split)
  qed
  finally show ?case .
qed

lemma distinct_keys_editor:
  "distinct (map fst (calculateAllValues_branch rd rta ad b))"
  using distinct_LINE_ITEMS_CONFIG
  by (simp add: editor_refines keys_spec_cascade)

lemma calculateAllValues_eq:
  "calculateAllValues rd rta ad =
     (\<lambda>b. if b \<in> set BRANCH_IDS then Some (map_of (calculateAllValues_branch rd rta ad b)) else None)"
proof -
  have "fold (\<lambda>b cd. cd(b \<mapsto> f b)) bs cd0 = (\<lambda>b. if b \<in> set bs then Some (f b) else cd0 b)"
    for f :: "nat \<Rightarrow> (string \<rightharpoonup> real)" and bs cd0
    by (induction bs arbitrary: cd0) (auto simp: fun_eq_iff)
  then show ?thesis
    by (simp add: calculateAllValues_def assign_eq distinct_keys_editor)
qed

subsection \<open>Reading the cascade, and its linearity in the revenue\<close>

lemma map_of_cascade_member:
  "(code, v) \<in> set (spec_cascade s a r) \<Longrightarrow> map_of (spec_cascade s a r) code = Some v"
  using distinct_LINE_ITEMS_CONFIG
  by (intro map_of_is_SomeI) (simp_all add: keys_spec_cascade)

lemma percentOfNetCodes_eq:
  "percentOfNetCodes = spec_direct_cost_codes @ spec_ga_codes
     @ [''OTHER_INCOME'', ''FINANCE_COST'', ''DEPRECIATION'', ''ZAKAT'', ''OCI'']"
  by (simp add: percentOfNetCodes_def spec_direct_cost_codes_def spec_ga_codes_def)

lemma percent_of_net_member:
  assumes "code \<in> set percentOfNetCodes"
  shows "(code, spec_pct (spec_REV_NET s a r) a code) \<in> set (spec_cascade s a r)"
proof -
  from assms consider "code \<in> set spec_direct_cost_codes" | "code \<in> set spec_ga_codes"
    | "code \<in> {''OTHER_INCOME'', ''FINANCE_COST'', ''DEPRECIATION'', ''ZAKAT'', ''OCI''}"
    unfolding percentOfNetCodes_eq by auto
  then show ?thesis
    by cases (auto simp: spec_cascade_def spec_expenses_def Let_def)
qed

lemma lookup_discounts:
  "map_of (spec_cascade s a r) ''REV_SUB'' = Some s"
  "map_of (spec_cascade s a r) ''DIS_REJECTION_MOH'' =
     Some (s * (a ''DIS_REJECTION_MOH'' / 100) * (r ''REV_TYPE_MOH'' / 100))"
  "map_of (spec_cascade s a r) ''DIS_REJECTION_INS'' =
     Some (s * (a ''DIS_REJECTION_INS'' / 100) * (r ''REV_TYPE_INSURANCE'' / 100))"
  "map_of (spec_cascade s a r) ''DIS_VOLUME'' = Some (s * (a ''DIS_VOLUME'' / 100))"
  "map_of (spec_cascade s a r) ''DIS_EARLY_PAY'' = Some (s * (a ''DIS_EARLY_PAY'' / 100))"
  "map_of (spec_cascade s a r) ''DIS_SETTLEMENT'' = Some (spec_DIS_SETTLEMENT s a r)"
  "map_of (spec_cascade s a r) ''REV_NET'' = Some (spec_REV_NET s a r)"
  by (simp_all add: spec_cascade_def spec_discounts_def)

lemma lookup_expenses:
  fixes s a r
  defines "n \<equiv> spec_REV_NET s a r"
  shows
  "map_of (spec_cascade s a r) ''TOTAL_DC'' = Some (spec_total n a spec_direct_cost_codes)"
  "map_of (spec_cascade s a r) ''GROSS_PROFIT'' = Some (n - spec_total n a spec_direct_cost_codes)"
  "map_of (spec_cascade s a r) ''TOTAL_GA'' = Some (spec_total n a spec_ga_codes)"
  "map_of (spec_cascade s a r) ''EBITDA'' =
     Some (n - spec_total n a spec_direct_cost_codes - spec_total n a spec_ga_codes
           + spec_pct n a ''OTHER_INCOME'')"
  "map_of (spec_cascade s a r) ''NET_PROFIT'' =
     Some (n - spec_total n a spec_direct_cost_codes - spec_total n a spec_ga_codes
           + spec_pct n a ''OTHER_INCOME'' - spec_pct n a ''FINANCE_COST''
           - spec_pct n a ''DEPRECIATION'' - spec_pct n a ''ZAKAT'')"
  "map_of (spec_cascade s a r) ''TOTAL_COMP_INCOME'' =
     Some (n - spec_total n a spec_direct_cost_codes - spec_total n a spec_ga_codes
           + spec_pct n a ''OTHER_INCOME'' - spec_pct n a ''FINANCE_COST''
           - spec_pct n a ''DEPRECIATION'' - spec_pct n a ''ZAKAT'' + spec_pct n a ''OCI'')"
  unfolding n_def
  by (rule map_of_cascade_member, simp add: spec_cascade_def spec_expenses_def Let_def)+

lemma spec_pct_scale: "spec_pct (n * s) a code = spec_pct n a code * s"
  by (simp add: spec_pct_def)

lemma spec_total_scale: "spec_total (n * s) a codes = spec_total n a codes * s"
  by (induction codes) (simp_all add: spec_total_def spec_pct_scale distrib_right)

lemma spec_REV_NET_scale: "spec_REV_NET s a r = spec_REV_NET 1 a r * s"
  by (simp add: spec_REV_NET_def spec_DIS_SETTLEMENT_def algebra_simps)

lemma spec_expenses_scale:
  "spec_expenses (n * s) a = map (\<lambda>(code, c). (code, c * s)) (spec_expenses n a)"
  by (simp add: spec_expenses_def Let_def spec_pct_scale spec_total_scale comp_def
      left_diff_distrib distrib_right)

lemma spec_discounts_scale:
  "spec_discounts s a r = map (\<lambda>(code, c). (code, c * s)) (spec_discounts 1 a r)"
  by (simp add: spec_discounts_def spec_REV_NET_def spec_DIS_SETTLEMENT_def algebra_simps)

lemma spec_cascade_scale:
  "spec_cascade s a r = map (\<lambda>(code, c). (code, c * s)) (spec_cascade 1 a r)"
proof -
  have "spec_expenses (spec_REV_NET s a r) a = spec_expenses (spec_REV_NET 1 a r * s) a"
    by (simp add: spec_REV_NET_scale [of s])
  then show ?thesis
    unfolding spec_cascade_def
    by (simp only: spec_expenses_scale map_append) (simp only: spec_discounts_scale [of s])
qed

lemma map_of_spec_cascade_scale:
  "map_of (spec_cascade s a r) code = map_option (\<lambda>c. c * s) (map_of (spec_cascade 1 a r) code)"
  by (subst spec_cascade_scale) (simp add: map_of_map)

lemma map_of_compute:
  "code \<notin> {''REV_IP'', ''REV_OP'', ''REV_ER''} \<Longrightarrow>
   map_of (compute i p e a r) code = map_of (spec_cascade (i + p + e) a r) code"
  "map_of (compute i p e a r) ''REV_IP'' = Some i"
  "map_of (compute i p e a r) ''REV_OP'' = Some p"
  "map_of (compute i p e a r) ''REV_ER'' = Some e"
  by (simp_all add: compute_def)

subsection \<open>Reading both tables\<close>

lemma calculated_editor:
  "b \<in> set BRANCH_IDS \<Longrightarrow>
   calculated (calculateAllValues rd rta ad) b code =
     map_of (spec_cascade (annualRevenue rd b IP + annualRevenue rd b OP + annualRevenue rd b ER)
       (assumption_value ad b) (revTypePct rta b)) code"
  by (simp add: calculated_def calculateAllValues_eq editor_refines)

lemma monthValue_compute:
  "monthValue mrd rta ad b m code =
     (case map_of (compute (orZero (IP (monthRevenue mrd b m))) (orZero (OP (monthRevenue mrd b m)))
       (orZero (ER (monthRevenue mrd b m))) (assumption_value ad b) (revTypePct rta b)) code of
        None \<Rightarrow> 0 | Some v \<Rightarrow> v)"
  by (simp add: monthValue_def budget_refines)

lemma cell_budget:
  assumes "calculateAllBranchValues mrd rta ad selected cd = Some cd'"
    and "b \<in> set (getSelectedBranches selected)" and "code \<in> set LINE_ITEMS_CONFIG"
  shows "cell cd' b code key = budgetRow mrd rta ad b code key"
  using assms by (auto simp: calculateAllBranchValues_eq cell_def budgetItems_def)

lemma in_LINE_ITEMS_CONFIG:
  "''REV_IP'' \<in> set LINE_ITEMS_CONFIG" "''REV_OP'' \<in> set LINE_ITEMS_CONFIG"
  "''REV_ER'' \<in> set LINE_ITEMS_CONFIG" "''REV_SUB'' \<in> set LINE_ITEMS_CONFIG"
  "''DIS_REJECTION_MOH'' \<in> set LINE_ITEMS_CONFIG" "''DIS_REJECTION_INS'' \<in> set LINE_ITEMS_CONFIG"
  "''DIS_VOLUME'' \<in> set LINE_ITEMS_CONFIG" "''DIS_EARLY_PAY'' \<in> set LINE_ITEMS_CONFIG"
  "''DIS_SETTLEMENT'' \<in> set LINE_ITEMS_CONFIG" "''REV_NET'' \<in> set LINE_ITEMS_CONFIG"
  "''TOTAL_DC'' \<in> set LINE_ITEMS_CONFIG" "''GROSS_PROFIT'' \<in> set LINE_ITEMS_CONFIG"
  "''TOTAL_GA'' \<in> set LINE_ITEMS_CONFIG" "''OTHER_INCOME'' \<in> set LINE_ITEMS_CONFIG"
  "''EBITDA'' \<in> set LINE_ITEMS_CONFIG" "''FINANCE_COST'' \<in> set LINE_ITEMS_CONFIG"
  "''DEPRECIATION'' \<in> set LINE_ITEMS_CONFIG" "''ZAKAT'' \<in> set LINE_ITEMS_CONFIG"
  "''NET_PROFIT'' \<in> set LINE_ITEMS_CONFIG" "''OCI'' \<in> set LINE_ITEMS_CONFIG"
  "''TOTAL_COMP_INCOME'' \<in> set LINE_ITEMS_CONFIG"
  by (simp_all add: LINE_ITEMS_CONFIG_def)

lemma monthValue_discounts:
  "monthValue mrd rta ad b m ''REV_SUB'' =
     orZero (IP (monthRevenue mrd b m)) + orZero (OP (monthRevenue mrd b m)) + orZero (ER (monthRevenue mrd b m))"
  "monthValue mrd rta ad b m ''DIS_SETTLEMENT'' =
     spec_DIS_SETTLEMENT (monthValue mrd rta ad b m ''REV_SUB'') (assumption_value ad b) (revTypePct rta b)"
  "monthValue mrd rta ad b m ''REV_NET'' =
     spec_REV_NET (monthValue mrd rta ad b m ''REV_SUB'') (assumption_value ad b) (revTypePct rta b)"
  by (simp_all add: monthValue_compute map_of_compute lookup_discounts)

lemma LINE_ITEMS_CONFIG_split:
  "LINE_ITEMS_CONFIG = ''REV_IP'' # ''REV_OP'' # ''REV_ER'' # drop 3 LINE_ITEMS_CONFIG"
  by (simp add: LINE_ITEMS_CONFIG_def)

lemma cascade_code:
  assumes "code \<in> set LINE_ITEMS_CONFIG" "code \<notin> {''REV_IP'', ''REV_OP'', ''REV_ER''}"
  shows "\<exists>c. map_of (spec_cascade 1 a r) code = Some c"
proof -
  have "code \<in> set (drop 3 LINE_ITEMS_CONFIG)"
    using assms by (subst (asm) LINE_ITEMS_CONFIG_split) simp
  moreover have "fst ` set (spec_cascade 1 a r) = set (map fst (spec_cascade 1 a r))"
    by simp
  ultimately have "code \<in> fst ` set (spec_cascade 1 a r)"
    by (simp only: keys_spec_cascade)
  then show ?thesis
    by (metis map_of_eq_None_iff not_Some_eq)
qed

lemma scenario_month:
  "m \<in> set [1..<13] \<Longrightarrow> monthRevenue scenario_monthly 2 m = scenario_revenue"
proof -
  assume m: "m \<in> set [1..<13]"
  have "map_of (map (\<lambda>m. (m, scenario_revenue)) [1..<13]) m = Some scenario_revenue"
    using m by (simp only: map_of_map_restrict) simp
  then show ?thesis by (simp add: monthRevenue_def scenario_monthly_def)
qed

subsection \<open>The properties hold of the cascade, hence of both tables\<close>

lemma calculated_editor_fun:
  "b \<in> set BRANCH_IDS \<Longrightarrow>
   calculated (calculateAllValues rd rta ad) b =
     map_of (spec_cascade (annualRevenue rd b IP + annualRevenue rd b OP + annualRevenue rd b ER)
       (assumption_value ad b) (revTypePct rta b))"
  by (rule ext) (rule calculated_editor)

lemma cell_month_cascade:
  assumes cd': "calculateAllBranchValues mrd rta ad selected cd = Some cd'"
    and sel: "b \<in> set (getSelectedBranches selected)" and m: "m \<in> set [1..<13]"
    and code: "code \<in> set LINE_ITEMS_CONFIG" "code \<notin> {''REV_IP'', ''REV_OP'', ''REV_ER''}"
  shows "cell cd' b code (month m) =
     map_of (spec_cascade (orZero (IP (monthRevenue mrd b m)) + orZero (OP (monthRevenue mrd b m))
                           + orZero (ER (monthRevenue mrd b m)))
       (assumption_value ad b) (revTypePct rta b)) code"
proof -
  let ?s = "orZero (IP (monthRevenue mrd b m)) + orZero (OP (monthRevenue mrd b m))
                           + orZero (ER (monthRevenue mrd b m))"
  obtain c where "map_of (spec_cascade 1 (assumption_value ad b) (revTypePct rta b)) code = Some c"
    using cascade_code [OF code] by blast
  then have "map_of (spec_cascade ?s (assumption_value ad b) (revTypePct rta b)) code = Some (c * ?s)"
    by (simp add: map_of_spec_cascade_scale [of ?s])
  moreover have "cell cd' b code (month m) = Some (monthValue mrd rta ad b m code)"
    using cell_budget [OF cd' sel code(1)] m by (simp add: budgetRow_def)
  ultimately show ?thesis
    by (simp add: monthValue_compute map_of_compute(1) [OF code(2)])
qed

text \<open>The month column of a selected branch is the cascade on that month's revenue, but for the raw revenue items.\<close>

lemma month_column_cascade:
  assumes cd': "calculateAllBranchValues mrd rta ad selected cd = Some cd'"
    and sel: "b \<in> set (getSelectedBranches selected)" and m: "m \<in> set [1..<13]"
    and code: "code \<in> set (drop 3 LINE_ITEMS_CONFIG)"
  shows "cell cd' b code (month m) =
     map_of (spec_cascade (orZero (IP (monthRevenue mrd b m)) + orZero (OP (monthRevenue mrd b m))
                           + orZero (ER (monthRevenue mrd b m)))
       (assumption_value ad b) (revTypePct rta b)) code"
proof -
  have "code \<in> set LINE_ITEMS_CONFIG" using code by (rule in_set_dropD)
  moreover have "code \<notin> {''REV_IP'', ''REV_OP'', ''REV_ER''}"
  proof -
    have "distinct (''REV_IP'' # ''REV_OP'' # ''REV_ER'' # drop 3 LINE_ITEMS_CONFIG)"
      using distinct_LINE_ITEMS_CONFIG by (simp only: LINE_ITEMS_CONFIG_split [symmetric])
    with code show ?thesis by auto
  qed
  ultimately show ?thesis by (rule cell_month_cascade [OF cd' sel m])
qed

lemma in_cascade_codes:
  "set percentOfNetCodes \<subseteq> set (drop 3 LINE_ITEMS_CONFIG)"
  "list_all (\<lambda>code. code \<in> set (drop 3 LINE_ITEMS_CONFIG))
     [''REV_SUB'', ''DIS_REJECTION_MOH'', ''DIS_REJECTION_INS'', ''DIS_REJECTION'', ''DIS_VOLUME'',
      ''DIS_EARLY_PAY'', ''DIS_SETTLEMENT'', ''REV_NET'', ''TOTAL_DC'', ''GROSS_PROFIT'', ''TOTAL_GA'',
      ''OTHER_INCOME'', ''EBITDA'', ''FINANCE_COST'', ''DEPRECIATION'', ''ZAKAT'', ''NET_PROFIT'', ''OCI'',
      ''TOTAL_COMP_INCOME'']"
  by (simp_all add: percentOfNetCodes_def LINE_ITEMS_CONFIG_def)

lemma cascade_rejection_cross_terms:
  "rejection_cross_terms a r (map_of (spec_cascade s a r))"
proof -
  have "list_all (\<lambda>code. map_of (spec_cascade s a r) code = Some (spec_REV_NET s a r * (a code / 100)))
          percentOfNetCodes"
    unfolding list_all_iff
    using percent_of_net_member [of _ s a r] map_of_cascade_member [of _ _ s a r]
    by (auto simp: spec_pct_def)
  then show ?thesis
    unfolding rejection_cross_terms_def by (simp add: lookup_discounts)
qed

lemma cascade_profit_identities:
  "profit_identities (map_of (spec_cascade s a r))"
proof -
  have "code \<in> set percentOfNetCodes \<Longrightarrow>
      map_of (spec_cascade s a r) code = Some (spec_pct (spec_REV_NET s a r) a code)" for code
    by (rule map_of_cascade_member) (rule percent_of_net_member)
  then have "map_of (spec_cascade s a r) ''OTHER_INCOME'' = Some (spec_pct (spec_REV_NET s a r) a ''OTHER_INCOME'')"
    "map_of (spec_cascade s a r) ''FINANCE_COST'' = Some (spec_pct (spec_REV_NET s a r) a ''FINANCE_COST'')"
    "map_of (spec_cascade s a r) ''DEPRECIATION'' = Some (spec_pct (spec_REV_NET s a r) a ''DEPRECIATION'')"
    "map_of (spec_cascade s a r) ''ZAKAT'' = Some (spec_pct (spec_REV_NET s a r) a ''ZAKAT'')"
    "map_of (spec_cascade s a r) ''OCI'' = Some (spec_pct (spec_REV_NET s a r) a ''OCI'')"
    by (simp_all add: percentOfNetCodes_eq)
  then show ?thesis
    unfolding profit_identities_def by (simp add: lookup_expenses)
qed

lemma rejection_cross_terms_cong:
  assumes "\<And>code. code \<in> set (drop 3 LINE_ITEMS_CONFIG) \<Longrightarrow> V code = W code"
    and "rejection_cross_terms a r V"
  shows "rejection_cross_terms a r W"
proof -
  have pct: "code \<in> set percentOfNetCodes \<Longrightarrow> V code = W code" for code
    using assms(1) in_cascade_codes(1) by blast
  have "V ''REV_SUB'' = W ''REV_SUB''" "V ''DIS_REJECTION_MOH'' = W ''DIS_REJECTION_MOH''"
    "V ''DIS_REJECTION_INS'' = W ''DIS_REJECTION_INS''" "V ''DIS_VOLUME'' = W ''DIS_VOLUME''"
    "V ''DIS_EARLY_PAY'' = W ''DIS_EARLY_PAY''" "V ''REV_NET'' = W ''REV_NET''"
    using in_cascade_codes(2) by (simp_all add: assms(1))
  with assms(2) pct show ?thesis
    unfolding rejection_cross_terms_def list_all_iff by metis
qed

lemma profit_identities_cong:
  assumes "\<And>code. code \<in> set (drop 3 LINE_ITEMS_CONFIG) \<Longrightarrow> V code = W code"
    and "profit_identities V"
  shows "profit_identities W"
proof -
  have "V ''GROSS_PROFIT'' = W ''GROSS_PROFIT''" "V ''TOTAL_GA'' = W ''TOTAL_GA''"
    "V ''OTHER_INCOME'' = W ''OTHER_INCOME''" "V ''EBITDA'' = W ''EBITDA''"
    "V ''FINANCE_COST'' = W ''FINANCE_COST''" "V ''DEPRECIATION'' = W ''DEPRECIATION''"
    "V ''ZAKAT'' = W ''ZAKAT''" "V ''NET_PROFIT'' = W ''NET_PROFIT''" "V ''OCI'' = W ''OCI''"
    "V ''TOTAL_COMP_INCOME'' = W ''TOTAL_COMP_INCOME''"
    using in_cascade_codes(2) by (simp_all add: assms(1))
  with assms(2) show ?thesis
    unfolding profit_identities_def by simp
qed

subsection \<open>The scenario, evaluated\<close>

lemma scenario_inputs:
  "annualRevenue scenario_revenueData 2 IP = 100000"
  "annualRevenue scenario_revenueData 2 OP = 50000"
  "annualRevenue scenario_revenueData 2 ER = 10000"
  "assumption_value scenario_assumptions 2 ''DIS_REJECTION_MOH'' = 2"
  "assumption_value scenario_assumptions 2 ''DIS_REJECTION_INS'' = 3"
  "assumption_value scenario_assumptions 2 ''DIS_VOLUME'' = 1"
  "assumption_value scenario_assumptions 2 ''DIS_EARLY_PAY'' = 0.5"
  "revTypePct scenario_allocations 2 ''REV_TYPE_MOH'' = 40"
  "revTypePct scenario_allocations 2 ''REV_TYPE_INSURANCE'' = 50"
  by (simp_all add: annualRevenue_def scenario_revenueData_def scenario_revenue_def
      assumption_value_def scenario_assumptions_def revTypePct_def scenario_allocations_def)

lemma scenario_branch: "2 \<in> set BRANCH_IDS" "2 \<in> set (getSelectedBranches (SelBranch 2))"
  "2 \<in> set (getSelectedBranches SelAll)" "3 \<in> set [1..<13]"
  by (simp_all add: BRANCH_IDS_def)

lemma scenario_monthValue:
  assumes "m \<in> set [1..<13]"
  shows "monthValue scenario_monthly scenario_allocations scenario_assumptions 2 m ''REV_NET'' = 153920"
proof -
  have "monthValue scenario_monthly scenario_allocations scenario_assumptions 2 m ''REV_NET''
      = spec_REV_NET 160000 (assumption_value scenario_assumptions 2) (revTypePct scenario_allocations 2)"
    by (simp add: monthValue_discounts scenario_month [OF assms] scenario_revenue_def)
  also have "\<dots> = 153920"
    by (simp add: spec_REV_NET_def spec_DIS_SETTLEMENT_def scenario_inputs)
  finally show ?thesis .
qed

subsection \<open>The aggregation of the budget view\<close>

lemma monthTotal_eq:
  "monthTotal cd selected code m = (\<Sum>b\<leftarrow>getSelectedBranches selected. cellOrZero cd b code (month m))"
  by (simp add: monthTotal_def foldl_plus_map)

lemma monthValue_no_revenue:
  assumes "orZero (IP (monthRevenue mrd b m)) = 0" "orZero (OP (monthRevenue mrd b m)) = 0"
    "orZero (ER (monthRevenue mrd b m)) = 0"
  shows "monthValue mrd rta ad b m code = 0"
proof (cases "code \<in> {''REV_IP'', ''REV_OP'', ''REV_ER''}")
  case True
  then show ?thesis using assms by (auto simp: monthValue_compute map_of_compute)
next
  case False
  then show ?thesis
    using assms
    by (simp add: monthValue_compute map_of_compute(1) map_of_spec_cascade_scale [of 0]
        split: option.split)
qed

lemma cellOrZero_budget:
  assumes "calculateAllBranchValues mrd rta ad selected cd = Some cd'"
    and "b \<in> set (getSelectedBranches selected)" and "code \<in> set LINE_ITEMS_CONFIG"
    and "m \<in> set [1..<13]"
  shows "cellOrZero cd' b code (month m) = monthValue mrd rta ad b m code"
  using assms by (auto simp: calculateAllBranchValues_eq cellOrZero_def budgetItems_def budgetRow_def)

lemma scenario_other_branches:
  "b \<noteq> 2 \<Longrightarrow> monthValue scenario_monthly rta ad b m code = 0"
  by (rule monthValue_no_revenue) (simp_all add: monthRevenue_def scenario_monthly_def)

lemma spec_cascade_allocations:
  "r ''REV_TYPE_MOH'' = r' ''REV_TYPE_MOH'' \<Longrightarrow> r ''REV_TYPE_INSURANCE'' = r' ''REV_TYPE_INSURANCE''
   \<Longrightarrow> spec_cascade s a r = spec_cascade s a r'"
  by (simp add: spec_cascade_def spec_discounts_def spec_REV_NET_def spec_DIS_SETTLEMENT_def)

lemma cascade_zero:
  assumes "code \<in> set (drop 3 LINE_ITEMS_CONFIG)"
  shows "map_of (spec_cascade 0 a r) code = Some 0"
proof -
  have "code \<in> fst ` set (spec_cascade 1 a r)"
    using assms by (simp flip: keys_spec_cascade [of 1 a r])
  then obtain c where "map_of (spec_cascade 1 a r) code = Some c"
    by (metis map_of_eq_None_iff not_Some_eq)
  then show ?thesis by (simp add: map_of_spec_cascade_scale [of 0])
qed

subsection \<open>The loops of the two averages\<close>

lemma fold_typeTotalStep:
  "fold (typeTotalStep rta code) bs acc =
     (fst acc + sum_list (filter (\<lambda>v. v > 0) (map (\<lambda>b. revTypePct rta b code) bs)),
      snd acc + length (filter (\<lambda>v. v > 0) (map (\<lambda>b. revTypePct rta b code) bs)))"
  by (induction bs arbitrary: acc) (simp_all add: typeTotalStep_def Let_def add.assoc)

lemma fold_updateMetrics:
  "revenue (fold updateMetrics rs m) = revenue m + (\<Sum>row\<leftarrow>rs. orZero (row_revenue row))"
  "episodes (fold updateMetrics rs m) = episodes m + (\<Sum>row\<leftarrow>rs. orZero (row_episodes row))"
  "totalCPE (fold updateMetrics rs m) = totalCPE m + sum_list (positiveCpes rs)"
  "countCPE (fold updateMetrics rs m) = countCPE m + length (positiveCpes rs)"
  by (induction rs arbitrary: m; simp add: updateMetrics_def Let_def positiveCpes_def add.assoc)+

lemma addRow_inherited:
  "st \<in> set Object_prototype_names \<Longrightarrow> fold addRow rows M st = M st"
proof (induction rows arbitrary: M)
  case Nil
  show ?case by simp
next
  case (Cons row rows)
  have "addRow row M st = M st"
    using Cons.prems by (cases "stayTypeOf row = st") (simp_all add: addRow_def Let_def)
  with Cons show ?case by simp
qed

lemma fold_addRow:
  assumes "st \<notin> set Object_prototype_names"
  shows "fold addRow rows M st =
     (if rowsOf rows st = [] then M st
      else Some (fold updateMetrics (rowsOf rows st)
             (case M st of
                None \<Rightarrow> \<lparr>revenue = 0, episodes = 0, totalCPE = 0, countCPE = 0,
                           totalALOS = 0, countALOS = 0, records = 0\<rparr>
              | Some m \<Rightarrow> m)))"
proof (induction rows arbitrary: M)
  case Nil
  show ?case by (simp add: rowsOf_def)
next
  case (Cons row rows)
  let ?zero = "\<lparr>revenue = 0, episodes = 0, totalCPE = 0, countCPE = 0,
                           totalALOS = 0, countALOS = 0, records = 0\<rparr>"
  have step: "fold addRow (row # rows) M st = fold addRow rows (addRow row M) st"
    by simp
  show ?case
  proof (cases "stayTypeOf row = st")
    case True
    then have "addRow row M st = Some (updateMetrics row (case M st of None \<Rightarrow> ?zero | Some m \<Rightarrow> m))"
      using assms by (simp add: addRow_def Let_def)
    moreover have "rowsOf (row # rows) st = row # rowsOf rows st"
      using True by (simp add: rowsOf_def)
    ultimately show ?thesis
      unfolding step Cons.IH by simp
  next
    case False
    then have "addRow row M st = M st"
      by (simp add: addRow_def Let_def)
    moreover have "rowsOf (row # rows) st = rowsOf rows st"
      using False by (simp add: rowsOf_def)
    ultimately show ?thesis
      unfolding step Cons.IH by simp
  qed
qed

subsection \<open>The cascade in a given arithmetic\<close>

text \<open>
  In the arithmetic \<open>exact\<close> the cascades over a given arithmetic are those of the exact
  model.
\<close>

lemma exact_ops:
  "fadd exact = (+)" "fsub exact = (-)" "fmul exact = (*)" "fdiv exact = (/)"
  "fzero exact = 0" "fhundred exact = 100"
  by (simp_all add: exact_def)

lemma exact_reads:
  "annualRevenue_in exact (map_option revenue_of \<circ> rd) b IP_of = annualRevenue rd b IP"
  "annualRevenue_in exact (map_option revenue_of \<circ> rd) b OP_of = annualRevenue rd b OP"
  "annualRevenue_in exact (map_option revenue_of \<circ> rd) b ER_of = annualRevenue rd b ER"
  "assumption_value_in exact ad b code = assumption_value ad b code"
  "revTypePct_in exact rta b code = revTypePct rta b code"
  by (simp_all add: exact_def annualRevenue_in_def annualRevenue_def orZero_in_def orZero_def revenue_of_def
      assumption_value_in_def assumption_value_def revTypePct_in_def revTypePct_def
      split: option.split)

lemma exact_month_reads:
  "orZero_in exact (IP_of (monthRevenue_in exact (map_option ((\<circ>) (map_option revenue_of)) \<circ> mrd) b m))
     = orZero (IP (monthRevenue mrd b m))"
  "orZero_in exact (OP_of (monthRevenue_in exact (map_option ((\<circ>) (map_option revenue_of)) \<circ> mrd) b m))
     = orZero (OP (monthRevenue mrd b m))"
  "orZero_in exact (ER_of (monthRevenue_in exact (map_option ((\<circ>) (map_option revenue_of)) \<circ> mrd) b m))
     = orZero (ER (monthRevenue mrd b m))"
  by (simp_all add: exact_def monthRevenue_in_def monthRevenue_def orZero_in_def orZero_def revenue_of_def
      split: option.split)

lemma editor_in_exact:
  "calculateAllValues_branch_in exact (map_option revenue_of \<circ> rd) rta ad b
     = calculateAllValues_branch rd rta ad b"
  unfolding calculateAllValues_branch_in_def calculateAllValues_branch_def Let_def
  by (simp only: exact_reads exact_ops)

lemma budget_in_exact:
  "calculateMonthValues_values_in exact (map_option ((\<circ>) (map_option revenue_of)) \<circ> mrd) rta ad b m
     = calculateMonthValues_values mrd rta ad b m"
  unfolding calculateMonthValues_values_in_def calculateMonthValues_values_def Let_def
  by (simp only: exact_month_reads exact_reads exact_ops)

text \<open>
  On one period's revenue both functions store the same values, whatever the arithmetic:
  they apply the same operations to the same operands in the same order.
\<close>

lemma same_assignments_in:
  "calculateMonthValues_values_in A mrd rta ad b m =
     [(''REV_IP'', orZero_in A (IP_of (monthRevenue_in A mrd b m))),
      (''REV_OP'', orZero_in A (OP_of (monthRevenue_in A mrd b m))),
      (''REV_ER'', orZero_in A (ER_of (monthRevenue_in A mrd b m)))]
     @ calculateAllValues_branch_in A [b \<mapsto> monthRevenue_in A mrd b m] rta ad b"
  unfolding calculateMonthValues_values_in_def calculateAllValues_branch_in_def Let_def
  by (simp add: annualRevenue_in_def)

text \<open>Every code of the catalog is assigned once, so the value read back is the one stored.\<close>

lemma keys_month_values_in:
  "map fst (calculateMonthValues_values_in A mrd rta ad b m) = LINE_ITEMS_CONFIG"
  by (simp add: calculateMonthValues_values_in_def Let_def LINE_ITEMS_CONFIG_def)

lemma volume_editor_in:
  "map_of (calculateAllValues_branch_in A rd rta ad b) ''DIS_VOLUME'' =
     Some (fmul A (fadd A (fadd A (annualRevenue_in A rd b IP_of) (annualRevenue_in A rd b OP_of))
                     (annualRevenue_in A rd b ER_of))
             (fdiv A (assumption_value_in A ad b ''DIS_VOLUME'') (fhundred A)))"
  by (simp add: calculateAllValues_branch_in_def Let_def)

lemma volume_month_in:
  "map_of (calculateMonthValues_values_in A mrd rta ad b m) ''DIS_VOLUME'' =
     Some (fmul A (fadd A (fadd A (orZero_in A (IP_of (monthRevenue_in A mrd b m)))
                             (orZero_in A (OP_of (monthRevenue_in A mrd b m))))
                     (orZero_in A (ER_of (monthRevenue_in A mrd b m))))
             (fdiv A (assumption_value_in A ad b ''DIS_VOLUME'') (fhundred A)))"
  by (simp add: same_assignments_in volume_editor_in annualRevenue_in_def)

subsection \<open>Binary64, evaluated\<close>

lemma binary64_ops:
  "fadd binary64 x y = rnd64 (x + y)" "fsub binary64 x y = rnd64 (x - y)"
  "fmul binary64 x y = rnd64 (x * y)" "fdiv binary64 x y = rnd64 (x / y)"
  "fzero binary64 = 0" "fhundred binary64 = 100"
  by (simp_all add: binary64_def)

text \<open>
  Known doubles: \<^verbatim>\<open>0.1\<close> is \<^verbatim>\<open>0x3FB999999999999A\<close>, \<^verbatim>\<open>0.1 + 0.2\<close> is the double
  above \<^verbatim>\<open>0.3\<close>, an integer below \<open>2\<^sup>5\<^sup>3\<close> is a double, and a tie goes to the even
  significand.
\<close>

lemma rnd64_examples:
  "rnd64 (1 / 10) = 3602879701896397 / 2 ^ 55"
  "rnd64 (rnd64 (1 / 10) + rnd64 (2 / 10)) = 5404319552844596 / 2 ^ 54"
  "rnd64 (3 / 10) = 5404319552844595 / 2 ^ 54"
  "rnd64 (7 / 100) = 5044031582654956 / 2 ^ 56"
  "rnd64 840 = 840"
  "rnd64 (2 ^ 53 + 1) = 2 ^ 53"
  "rnd64 (2 ^ 53 + 3) = 2 ^ 53 + 4"
  by code_simp+

lemma rounding_reads:
  "annualRevenue_in binary64 rounding_annual 2 IP_of = 12000"
  "annualRevenue_in binary64 rounding_annual 2 OP_of = 0"
  "annualRevenue_in binary64 rounding_annual 2 ER_of = 0"
  "assumption_value_in binary64 rounding_assumptions 2 ''DIS_VOLUME'' = 7"
  by (simp_all add: annualRevenue_in_def rounding_annual_def assumption_value_in_def
      rounding_assumptions_def orZero_in_def binary64_ops)

lemma rounding_month:
  assumes "m \<in> set [1..<13]"
  shows "monthRevenue_in binary64 rounding_monthly 2 m = \<lparr>IP_of = Some 1000, OP_of = Some 0, ER_of = Some 0\<rparr>"
proof -
  have "map_of (map (\<lambda>m. (m, \<lparr>IP_of = Some (1000 :: rat), OP_of = Some 0, ER_of = Some 0\<rparr>)) [1..<13]) m
      = Some \<lparr>IP_of = Some 1000, OP_of = Some 0, ER_of = Some 0\<rparr>"
    using assms by (simp only: map_of_map_restrict) simp
  then show ?thesis by (simp add: monthRevenue_in_def rounding_monthly_def)
qed

text \<open>
  \<^verbatim>\<open>12000 * (7 / 100)\<close> is \<^verbatim>\<open>840.0000000000001\<close>, one unit in the last place above 840;
  \<^verbatim>\<open>1000 * (7 / 100)\<close> is \<^verbatim>\<open>70\<close>, and twelve times 70 add up to 840 without rounding.
\<close>

lemma double_values:
  "rnd64 (rnd64 (rnd64 (12000 + 0) + 0) * rnd64 (7 / 100)) = 840 + 1 / 2 ^ 43"
  "rnd64 (rnd64 (rnd64 (1000 + 0) + 0) * rnd64 (7 / 100)) = 70"
  "foldl (\<lambda>fyTotal m. rnd64 (fyTotal + 70)) 0 [1 ..< 13 :: nat] = 840"
  by code_simp+

subsection \<open>Fiscal totals in exact arithmetic\<close>

lemma fiscal_totals_in_exact_arithmetic:
  assumes b: "b \<in> set BRANCH_IDS" and sel: "b \<in> set (getSelectedBranches selected)"
    and ip: "annualRevenue rd b IP = (\<Sum>m\<leftarrow>[1..<13]. orZero (IP (monthRevenue mrd b m)))"
    and op: "annualRevenue rd b OP = (\<Sum>m\<leftarrow>[1..<13]. orZero (OP (monthRevenue mrd b m)))"
    and er: "annualRevenue rd b ER = (\<Sum>m\<leftarrow>[1..<13]. orZero (ER (monthRevenue mrd b m)))"
  shows "calculateMonthValues_values mrd rta ad b m =
           [(''REV_IP'', orZero (IP (monthRevenue mrd b m))),
            (''REV_OP'', orZero (OP (monthRevenue mrd b m))),
            (''REV_ER'', orZero (ER (monthRevenue mrd b m)))]
           @ calculateAllValues_branch [b \<mapsto> monthRevenue mrd b m] rta ad b
     \<and> (\<exists>cd'. calculateAllBranchValues mrd rta ad selected cd = Some cd'
     \<and> (\<forall>code \<in> set LINE_ITEMS_CONFIG - {''REV_IP'', ''REV_OP'', ''REV_ER''}.
          \<exists>v. calculated (calculateAllValues rd rta ad) b code = Some v
             \<and> cell cd' b code fy_total = Some v
             \<and> v = (\<Sum>m\<leftarrow>[1..<13]. monthValue mrd rta ad b m code))
     \<and> cell cd' b ''REV_IP'' fy_total = Some (annualRevenue rd b IP)
     \<and> cell cd' b ''REV_OP'' fy_total = Some (annualRevenue rd b OP)
     \<and> cell cd' b ''REV_ER'' fy_total = Some (annualRevenue rd b ER))"
proof -
  let ?a = "assumption_value ad b" and ?r = "revTypePct rta b"
  have same: "calculateMonthValues_values mrd rta ad b m =
           [(''REV_IP'', orZero (IP (monthRevenue mrd b m))),
            (''REV_OP'', orZero (OP (monthRevenue mrd b m))),
            (''REV_ER'', orZero (ER (monthRevenue mrd b m)))]
           @ calculateAllValues_branch [b \<mapsto> monthRevenue mrd b m] rta ad b"
    by (simp add: budget_refines editor_refines compute_def annualRevenue_def)
  let ?s = "\<lambda>m. orZero (IP (monthRevenue mrd b m)) + orZero (OP (monthRevenue mrd b m))
               + orZero (ER (monthRevenue mrd b m))"
  let ?S = "annualRevenue rd b IP + annualRevenue rd b OP + annualRevenue rd b ER"
  obtain cd' where cd': "calculateAllBranchValues mrd rta ad selected cd = Some cd'"
    by (simp add: calculateAllBranchValues_eq)
  have fy: "cell cd' b code fy_total = Some (\<Sum>m\<leftarrow>[1..<13]. monthValue mrd rta ad b m code)"
    if "code \<in> set LINE_ITEMS_CONFIG" for code
    using cell_budget [OF cd' sel that] by (simp add: budgetRow_def)
  have S: "?S = (\<Sum>m\<leftarrow>[1..<13]. ?s m)"
    by (simp only: ip op er sum_list_addf)
  have items: "\<exists>v. calculated (calculateAllValues rd rta ad) b code = Some v
             \<and> cell cd' b code fy_total = Some v
             \<and> v = (\<Sum>m\<leftarrow>[1..<13]. monthValue mrd rta ad b m code)"
    if code: "code \<in> set LINE_ITEMS_CONFIG - {''REV_IP'', ''REV_OP'', ''REV_ER''}" for code
  proof -
    from code have in_cfg: "code \<in> set LINE_ITEMS_CONFIG"
      and not_rev: "code \<notin> {''REV_IP'', ''REV_OP'', ''REV_ER''}" by blast+
    obtain c where c: "map_of (spec_cascade 1 ?a ?r) code = Some c"
      using cascade_code [OF in_cfg not_rev] by blast
    have mv: "monthValue mrd rta ad b m code = c * ?s m" for m
      by (simp add: monthValue_compute map_of_compute(1) [OF not_rev]
          map_of_spec_cascade_scale [of "?s m"] c)
    have "calculated (calculateAllValues rd rta ad) b code = Some (c * ?S)"
      using b by (simp add: calculated_editor map_of_spec_cascade_scale [of ?S] c)
    moreover have "(\<Sum>m\<leftarrow>[1..<13]. monthValue mrd rta ad b m code) = c * ?S"
      by (simp only: mv S sum_list_const_mult)
    ultimately show ?thesis using fy [OF in_cfg] by simp
  qed
  have "monthValue mrd rta ad b m ''REV_IP'' = orZero (IP (monthRevenue mrd b m))"
    "monthValue mrd rta ad b m ''REV_OP'' = orZero (OP (monthRevenue mrd b m))"
    "monthValue mrd rta ad b m ''REV_ER'' = orZero (ER (monthRevenue mrd b m))" for m
    by (simp_all add: monthValue_compute map_of_compute)
  then have "cell cd' b ''REV_IP'' fy_total = Some (annualRevenue rd b IP)"
    "cell cd' b ''REV_OP'' fy_total = Some (annualRevenue rd b OP)"
    "cell cd' b ''REV_ER'' fy_total = Some (annualRevenue rd b ER)"
    by (simp_all add: fy in_LINE_ITEMS_CONFIG ip op er)
  with cd' items same show ?thesis by blast
qed

section \<open>The claims\<close>

subsection \<open>C1: the editor and the budget view agree\<close>

text \<open>
  Claim C1, as it holds of the code. For every branch and every fixed set of assumptions
  and revenue-type allocations:

  \<^item> applied to the revenue figures of one period, \<^verbatim>\<open>calculateAllValues\<close> and
    \<^verbatim>\<open>calculateMonthValues\<close> store the same value for every line item that the editor
    computes (the budget view stores the three revenue figures besides), in every
    arithmetic, that of binary64 doubles included;

  \<^item> in exact arithmetic, whenever the annual revenue of each care type is the sum of its
    twelve monthly revenues, \<^verbatim>\<open>calculateAllValues\<close> on the annual revenue and
    \<^verbatim>\<open>calculateMonthValues\<close> on each of the twelve months, with fiscal totals summed
    over the months, give the same value for every line item.

  The editor computes every branch of \<open>BRANCH_IDS\<close> and the budget view the selected ones;
  the editor's table holds every code of the catalog but the three raw revenue items, whose
  value in the editor is the annual revenue itself.
\<close>

theorem editor_and_budget_view_agree:
  assumes b: "b \<in> set BRANCH_IDS" and sel: "b \<in> set (getSelectedBranches selected)"
    and ip: "annualRevenue rd b IP = (\<Sum>m\<leftarrow>[1..<13]. orZero (IP (monthRevenue mrd b m)))"
    and op: "annualRevenue rd b OP = (\<Sum>m\<leftarrow>[1..<13]. orZero (OP (monthRevenue mrd b m)))"
    and er: "annualRevenue rd b ER = (\<Sum>m\<leftarrow>[1..<13]. orZero (ER (monthRevenue mrd b m)))"
  shows "calculateMonthValues_values_in A mrd' rta' ad' b' m' =
           [(''REV_IP'', orZero_in A (IP_of (monthRevenue_in A mrd' b' m'))),
            (''REV_OP'', orZero_in A (OP_of (monthRevenue_in A mrd' b' m'))),
            (''REV_ER'', orZero_in A (ER_of (monthRevenue_in A mrd' b' m')))]
           @ calculateAllValues_branch_in A [b' \<mapsto> monthRevenue_in A mrd' b' m'] rta' ad' b'
     \<and> calculateMonthValues_values mrd rta ad b m =
           [(''REV_IP'', orZero (IP (monthRevenue mrd b m))),
            (''REV_OP'', orZero (OP (monthRevenue mrd b m))),
            (''REV_ER'', orZero (ER (monthRevenue mrd b m)))]
           @ calculateAllValues_branch [b \<mapsto> monthRevenue mrd b m] rta ad b
     \<and> (\<exists>cd'. calculateAllBranchValues mrd rta ad selected cd = Some cd'
     \<and> (\<forall>code \<in> set LINE_ITEMS_CONFIG - {''REV_IP'', ''REV_OP'', ''REV_ER''}.
          \<exists>v. calculated (calculateAllValues rd rta ad) b code = Some v
             \<and> cell cd' b code fy_total = Some v
             \<and> v = (\<Sum>m\<leftarrow>[1..<13]. monthValue mrd rta ad b m code))
     \<and> cell cd' b ''REV_IP'' fy_total = Some (annualRevenue rd b IP)
     \<and> cell cd' b ''REV_OP'' fy_total = Some (annualRevenue rd b OP)
     \<and> cell cd' b ''REV_ER'' fy_total = Some (annualRevenue rd b ER))"
  by (rule conjI [OF same_assignments_in fiscal_totals_in_exact_arithmetic [OF b sel ip op er]])

theorem editor_and_budget_view_agree_witness:
  "calculateMonthValues_values_in binary64 rounding_monthly rounding_allocations rounding_assumptions 2 3 =
     [(''REV_IP'', orZero_in binary64 (IP_of (monthRevenue_in binary64 rounding_monthly 2 3))),
      (''REV_OP'', orZero_in binary64 (OP_of (monthRevenue_in binary64 rounding_monthly 2 3))),
      (''REV_ER'', orZero_in binary64 (ER_of (monthRevenue_in binary64 rounding_monthly 2 3)))]
     @ calculateAllValues_branch_in binary64 [2 \<mapsto> monthRevenue_in binary64 rounding_monthly 2 3]
         rounding_allocations rounding_assumptions 2
   \<and> 2 \<in> set BRANCH_IDS \<and> 2 \<in> set (getSelectedBranches SelAll)
   \<and> annualRevenue scenario_annual 2 IP = (\<Sum>m\<leftarrow>[1..<13]. orZero (IP (monthRevenue scenario_monthly 2 m)))
   \<and> annualRevenue scenario_annual 2 OP = (\<Sum>m\<leftarrow>[1..<13]. orZero (OP (monthRevenue scenario_monthly 2 m)))
   \<and> annualRevenue scenario_annual 2 ER = (\<Sum>m\<leftarrow>[1..<13]. orZero (ER (monthRevenue scenario_monthly 2 m)))
   \<and> (\<exists>cd'. calculateAllBranchValues scenario_monthly scenario_allocations scenario_assumptions SelAll Map.empty = Some cd'
        \<and> ''REV_NET'' \<in> set LINE_ITEMS_CONFIG - {''REV_IP'', ''REV_OP'', ''REV_ER''}
        \<and> (\<exists>v. calculated (calculateAllValues scenario_annual scenario_allocations scenario_assumptions) 2 ''REV_NET'' = Some v
             \<and> cell cd' 2 ''REV_NET'' fy_total = Some v)
        \<and> cell cd' 2 ''REV_IP'' fy_total = Some 1200000)"
proof -
  have b: "2 \<in> set BRANCH_IDS" "2 \<in> set (getSelectedBranches SelAll)"
    by (simp_all add: BRANCH_IDS_def)
  have sums: "(\<Sum>m\<leftarrow>[1..<13]. orZero (f (monthRevenue scenario_monthly 2 m))) = 12 * orZero (f scenario_revenue)"
    for f :: "revenue \<Rightarrow> real option"
  proof -
    have "map (\<lambda>m. orZero (f (monthRevenue scenario_monthly 2 m))) [1..<13]
        = map (\<lambda>m. orZero (f scenario_revenue)) [1..<13]"
      by (rule map_cong [OF refl]) (simp only: scenario_month)
    then have "(\<Sum>m\<leftarrow>[1..<13]. orZero (f (monthRevenue scenario_monthly 2 m)))
        = sum_list (map (\<lambda>m. orZero (f scenario_revenue)) [1..<13])"
      by (rule arg_cong)
    also have "\<dots> = 12 * orZero (f scenario_revenue)"
      by (simp add: sum_list_triv)
    finally show ?thesis .
  qed
  have ann: "annualRevenue scenario_annual 2 IP = 1200000"
    "annualRevenue scenario_annual 2 OP = 600000" "annualRevenue scenario_annual 2 ER = 120000"
    by (simp_all add: annualRevenue_def scenario_annual_def)
  have h: "annualRevenue scenario_annual 2 IP = (\<Sum>m\<leftarrow>[1..<13]. orZero (IP (monthRevenue scenario_monthly 2 m)))"
    "annualRevenue scenario_annual 2 OP = (\<Sum>m\<leftarrow>[1..<13]. orZero (OP (monthRevenue scenario_monthly 2 m)))"
    "annualRevenue scenario_annual 2 ER = (\<Sum>m\<leftarrow>[1..<13]. orZero (ER (monthRevenue scenario_monthly 2 m)))"
    by (simp_all only: sums ann) (simp_all add: scenario_revenue_def)
  have code: "''REV_NET'' \<in> set LINE_ITEMS_CONFIG - {''REV_IP'', ''REV_OP'', ''REV_ER''}"
    by (simp add: in_LINE_ITEMS_CONFIG)
  note agree = editor_and_budget_view_agree [OF b h]
  have same: "calculateMonthValues_values_in binary64 rounding_monthly rounding_allocations rounding_assumptions 2 3 =
     [(''REV_IP'', orZero_in binary64 (IP_of (monthRevenue_in binary64 rounding_monthly 2 3))),
      (''REV_OP'', orZero_in binary64 (OP_of (monthRevenue_in binary64 rounding_monthly 2 3))),
      (''REV_ER'', orZero_in binary64 (ER_of (monthRevenue_in binary64 rounding_monthly 2 3)))]
     @ calculateAllValues_branch_in binary64 [2 \<mapsto> monthRevenue_in binary64 rounding_monthly 2 3]
         rounding_allocations rounding_assumptions 2"
    by (rule agree [THEN conjunct1])
  from agree [where rta = scenario_allocations and ad = scenario_assumptions and cd = Map.empty,
      THEN conjunct2, THEN conjunct2]
  obtain cd' where cd': "calculateAllBranchValues scenario_monthly scenario_allocations scenario_assumptions SelAll Map.empty = Some cd'"
    and all: "\<forall>code \<in> set LINE_ITEMS_CONFIG - {''REV_IP'', ''REV_OP'', ''REV_ER''}.
          \<exists>v. calculated (calculateAllValues scenario_annual scenario_allocations scenario_assumptions) 2 code = Some v
             \<and> cell cd' 2 code fy_total = Some v
             \<and> v = (\<Sum>m\<leftarrow>[1..<13]. monthValue scenario_monthly scenario_allocations scenario_assumptions 2 m code)"
    and ipc: "cell cd' 2 ''REV_IP'' fy_total = Some (annualRevenue scenario_annual 2 IP)"
    by blast
  from all code obtain v where
    "calculated (calculateAllValues scenario_annual scenario_allocations scenario_assumptions) 2 ''REV_NET'' = Some v"
    "cell cd' 2 ''REV_NET'' fy_total = Some v"
    by blast
  with cd' ipc code b h have "2 \<in> set BRANCH_IDS \<and> 2 \<in> set (getSelectedBranches SelAll)
   \<and> annualRevenue scenario_annual 2 IP = (\<Sum>m\<leftarrow>[1..<13]. orZero (IP (monthRevenue scenario_monthly 2 m)))
   \<and> annualRevenue scenario_annual 2 OP = (\<Sum>m\<leftarrow>[1..<13]. orZero (OP (monthRevenue scenario_monthly 2 m)))
   \<and> annualRevenue scenario_annual 2 ER = (\<Sum>m\<leftarrow>[1..<13]. orZero (ER (monthRevenue scenario_monthly 2 m)))
   \<and> (\<exists>cd'. calculateAllBranchValues scenario_monthly scenario_allocations scenario_assumptions SelAll Map.empty = Some cd'
        \<and> ''REV_NET'' \<in> set LINE_ITEMS_CONFIG - {''REV_IP'', ''REV_OP'', ''REV_ER''}
        \<and> (\<exists>v. calculated (calculateAllValues scenario_annual scenario_allocations scenario_assumptions) 2 ''REV_NET'' = Some v
             \<and> cell cd' 2 ''REV_NET'' fy_total = Some v)
        \<and> cell cd' 2 ''REV_IP'' fy_total = Some 1200000)"
    by (simp only: ann) blast
  with same show ?thesis by (rule conjI)
qed

text \<open>
  Claim C1 as stated, for the doubles of the program, fails. Branch 2 has twelve months of
  inpatient revenue 1000, the annual inpatient revenue 12000 that they add up to, no other
  revenue, and a volume discount of 7 percent. For \<open>DIS_VOLUME\<close> the editor stores
  \<^verbatim>\<open>12000 * (7 / 100)\<close>, which is \<^verbatim>\<open>840.0000000000001\<close>; the budget view stores
  \<^verbatim>\<open>1000 * (7 / 100)\<close>, which is \<^verbatim>\<open>70\<close>, for each month, and their sum 840 as the
  fiscal total.
\<close>

theorem fiscal_totals_differ_in_binary64:
  "annualRevenue_in binary64 rounding_annual 2 IP_of = 12000
   \<and> sum_list (monthlyRevenues_in binary64 rounding_monthly 2 IP_of) = 12000
   \<and> annualRevenue_in binary64 rounding_annual 2 OP_of = 0
   \<and> sum_list (monthlyRevenues_in binary64 rounding_monthly 2 OP_of) = 0
   \<and> annualRevenue_in binary64 rounding_annual 2 ER_of = 0
   \<and> sum_list (monthlyRevenues_in binary64 rounding_monthly 2 ER_of) = 0
   \<and> map_of (calculateAllValues_branch_in binary64 rounding_annual rounding_allocations rounding_assumptions 2)
        ''DIS_VOLUME'' = Some (840 + 1 / 2 ^ 43)
   \<and> fy_total_in binary64 rounding_monthly rounding_allocations rounding_assumptions 2 ''DIS_VOLUME'' = 840
   \<and> map_of (calculateAllValues_branch_in binary64 rounding_annual rounding_allocations rounding_assumptions 2)
        ''DIS_VOLUME''
      \<noteq> Some (fy_total_in binary64 rounding_monthly rounding_allocations rounding_assumptions 2 ''DIS_VOLUME'')"
proof -
  have months: "monthlyRevenues_in binary64 rounding_monthly 2 f
      = map (\<lambda>m. orZero_in binary64 (f \<lparr>IP_of = Some 1000, OP_of = Some 0, ER_of = Some 0\<rparr>)) [1..<13]"
    for f :: "rat revenueOf \<Rightarrow> rat option"
    unfolding monthlyRevenues_in_def
    by (rule map_cong [OF refl]) (simp only: rounding_month)
  have sums: "sum_list (monthlyRevenues_in binary64 rounding_monthly 2 IP_of) = 12000"
    "sum_list (monthlyRevenues_in binary64 rounding_monthly 2 OP_of) = 0"
    "sum_list (monthlyRevenues_in binary64 rounding_monthly 2 ER_of) = 0"
    by (simp_all add: months orZero_in_def sum_list_triv)
  have editor: "map_of (calculateAllValues_branch_in binary64 rounding_annual rounding_allocations
      rounding_assumptions 2) ''DIS_VOLUME'' = Some (840 + 1 / 2 ^ 43)"
    by (simp only: volume_editor_in rounding_reads binary64_ops double_values)
  have month: "storedValue_in binary64
      (calculateMonthValues_values_in binary64 rounding_monthly rounding_allocations rounding_assumptions 2 m)
      ''DIS_VOLUME'' = 70" if "m \<in> set [1..<13]" for m
    by (simp only: storedValue_in_def volume_month_in rounding_month [OF that] rounding_reads binary64_ops
        orZero_in_def option.case revenueOf.simps double_values)
  have "fy_total_in binary64 rounding_monthly rounding_allocations rounding_assumptions 2 ''DIS_VOLUME''
      = foldl (\<lambda>fyTotal m. rnd64 (fyTotal + 70)) 0 [1..<13]"
    unfolding fy_total_in_def
    by (rule foldl_cong [OF _ refl]) (simp_all only: month binary64_ops)
  then have budget: "fy_total_in binary64 rounding_monthly rounding_allocations rounding_assumptions 2
      ''DIS_VOLUME'' = 840"
    by (simp only: double_values)
  have "(840 + 1 / 2 ^ 43 :: rat) \<noteq> 840" by simp
  with editor budget sums rounding_reads(1,2,3) show ?thesis by simp
qed

subsection \<open>C2: the rejection cross term\<close>

text \<open>
  Claim C2. For every input, the rejection line items are the only cross-term step:
  \<open>DIS_REJECTION_MOH\<close> is \<open>REV_SUB\<close> times its assumption over 100 times the
  \<open>REV_TYPE_MOH\<close> allocation over 100, and \<open>DIS_REJECTION_INS\<close> likewise with the
  \<open>REV_TYPE_INSURANCE\<close> allocation, while the volume and early-payment discounts are
  \<open>REV_SUB\<close> times one percentage and every cost, expense and income item is
  \<open>REV_NET\<close> times one percentage. In particular, with \<open>REV_SUB = 160000\<close>,
  assumption 2 and allocation 40, \<open>DIS_REJECTION_MOH = 1280\<close>. It holds in the editor's
  table for every branch and in every month column of the budget view.
\<close>

theorem rejection_is_the_cross_term:
  assumes "b \<in> set BRANCH_IDS" and "b' \<in> set (getSelectedBranches selected)" and "m \<in> set [1..<13]"
  shows "rejection_cross_terms (assumption_value ad b) (revTypePct rta b)
           (calculated (calculateAllValues rd rta ad) b)
       \<and> (\<exists>cd'. calculateAllBranchValues mrd rta ad selected cd = Some cd'
            \<and> rejection_cross_terms (assumption_value ad b') (revTypePct rta b')
                 (\<lambda>code. cell cd' b' code (month m)))
       \<and> (calculated (calculateAllValues rd rta ad) b ''REV_SUB'' = Some 160000
            \<and> assumption_value ad b ''DIS_REJECTION_MOH'' = 2 \<and> revTypePct rta b ''REV_TYPE_MOH'' = 40
          \<longrightarrow> calculated (calculateAllValues rd rta ad) b ''DIS_REJECTION_MOH'' = Some 1280)"
proof (intro conjI)
  show ed: "rejection_cross_terms (assumption_value ad b) (revTypePct rta b)
           (calculated (calculateAllValues rd rta ad) b)"
    using assms(1) by (simp add: calculated_editor_fun cascade_rejection_cross_terms)
  obtain cd' where cd': "calculateAllBranchValues mrd rta ad selected cd = Some cd'"
    by (simp add: calculateAllBranchValues_eq)
  have "rejection_cross_terms (assumption_value ad b') (revTypePct rta b')
                 (\<lambda>code. cell cd' b' code (month m))"
  proof (rule rejection_cross_terms_cong [OF _ cascade_rejection_cross_terms])
    fix code
    assume "code \<in> set (drop 3 LINE_ITEMS_CONFIG)"
    then show "map_of (spec_cascade (orZero (IP (monthRevenue mrd b' m)) + orZero (OP (monthRevenue mrd b' m))
                           + orZero (ER (monthRevenue mrd b' m)))
                 (assumption_value ad b') (revTypePct rta b')) code = cell cd' b' code (month m)"
      by (simp add: month_column_cascade [OF cd' assms(2,3)])
  qed
  with cd' show "\<exists>cd'. calculateAllBranchValues mrd rta ad selected cd = Some cd'
            \<and> rejection_cross_terms (assumption_value ad b') (revTypePct rta b')
                 (\<lambda>code. cell cd' b' code (month m))"
    by blast
  show "calculated (calculateAllValues rd rta ad) b ''REV_SUB'' = Some 160000
            \<and> assumption_value ad b ''DIS_REJECTION_MOH'' = 2 \<and> revTypePct rta b ''REV_TYPE_MOH'' = 40
          \<longrightarrow> calculated (calculateAllValues rd rta ad) b ''DIS_REJECTION_MOH'' = Some 1280"
    using ed unfolding rejection_cross_terms_def by auto
qed

theorem rejection_is_the_cross_term_witness:
  "2 \<in> set BRANCH_IDS \<and> 2 \<in> set (getSelectedBranches (SelBranch 2)) \<and> 3 \<in> set [1..<13]
   \<and> calculated (calculateAllValues scenario_revenueData scenario_allocations scenario_assumptions) 2 ''REV_SUB''
        = Some 160000
   \<and> assumption_value scenario_assumptions 2 ''DIS_REJECTION_MOH'' = 2
   \<and> revTypePct scenario_allocations 2 ''REV_TYPE_MOH'' = 40
   \<and> calculated (calculateAllValues scenario_revenueData scenario_allocations scenario_assumptions) 2
        ''DIS_REJECTION_MOH'' = Some 1280
   \<and> rejection_cross_terms (assumption_value scenario_assumptions 2) (revTypePct scenario_allocations 2)
        (calculated (calculateAllValues scenario_revenueData scenario_allocations scenario_assumptions) 2)
   \<and> (\<exists>cd'. calculateAllBranchValues scenario_monthly scenario_allocations scenario_assumptions
               (SelBranch 2) Map.empty = Some cd'
          \<and> rejection_cross_terms (assumption_value scenario_assumptions 2) (revTypePct scenario_allocations 2)
               (\<lambda>code. cell cd' 2 code (month 3)))"
proof -
  have sub: "calculated (calculateAllValues scenario_revenueData scenario_allocations scenario_assumptions) 2 ''REV_SUB''
        = Some 160000"
    by (simp only: calculated_editor [OF scenario_branch(1)] lookup_discounts scenario_inputs) simp
  from rejection_is_the_cross_term [OF scenario_branch(1,2,4),
      of scenario_assumptions scenario_allocations scenario_revenueData scenario_monthly Map.empty]
    sub scenario_inputs(4,8) scenario_branch
  show ?thesis by blast
qed

subsection \<open>C3: net revenue\<close>

text \<open>
  Claim C3. For every input, the computed \<open>REV_NET\<close> is the computed \<open>REV_SUB\<close> minus
  the computed \<open>DIS_SETTLEMENT\<close>, exactly: nothing rounds between the steps. It holds in
  the editor's table for every branch and in every month cell of the budget view.
\<close>

theorem net_revenue_exact:
  assumes "b \<in> set BRANCH_IDS" and "b' \<in> set (getSelectedBranches selected)" and "m \<in> set [1..<13]"
  shows "(\<exists>sub dis.
            calculated (calculateAllValues rd rta ad) b ''REV_SUB'' = Some sub
          \<and> calculated (calculateAllValues rd rta ad) b ''DIS_SETTLEMENT'' = Some dis
          \<and> calculated (calculateAllValues rd rta ad) b ''REV_NET'' = Some (sub - dis))
       \<and> (\<exists>cd' sub dis.
            calculateAllBranchValues mrd rta ad selected cd = Some cd'
          \<and> cell cd' b' ''REV_SUB'' (month m) = Some sub
          \<and> cell cd' b' ''DIS_SETTLEMENT'' (month m) = Some dis
          \<and> cell cd' b' ''REV_NET'' (month m) = Some (sub - dis))"
proof
  show "\<exists>sub dis.
            calculated (calculateAllValues rd rta ad) b ''REV_SUB'' = Some sub
          \<and> calculated (calculateAllValues rd rta ad) b ''DIS_SETTLEMENT'' = Some dis
          \<and> calculated (calculateAllValues rd rta ad) b ''REV_NET'' = Some (sub - dis)"
    using assms(1) by (simp add: calculated_editor lookup_discounts spec_REV_NET_def)
next
  obtain cd' where cd': "calculateAllBranchValues mrd rta ad selected cd = Some cd'"
    by (simp add: calculateAllBranchValues_eq)
  have "cell cd' b' code (month m) = Some (monthValue mrd rta ad b' m code)"
    if "code \<in> set LINE_ITEMS_CONFIG" for code
    using cell_budget [OF cd' assms(2) that] assms(3) by (simp add: budgetRow_def)
  then have "cell cd' b' ''REV_SUB'' (month m) = Some (monthValue mrd rta ad b' m ''REV_SUB'')"
    "cell cd' b' ''DIS_SETTLEMENT'' (month m) = Some (monthValue mrd rta ad b' m ''DIS_SETTLEMENT'')"
    "cell cd' b' ''REV_NET'' (month m) = Some (monthValue mrd rta ad b' m ''REV_SUB'' - monthValue mrd rta ad b' m ''DIS_SETTLEMENT'')"
    by (simp_all add: in_LINE_ITEMS_CONFIG monthValue_discounts(2,3) spec_REV_NET_def)
  with cd' show "\<exists>cd' sub dis.
            calculateAllBranchValues mrd rta ad selected cd = Some cd'
          \<and> cell cd' b' ''REV_SUB'' (month m) = Some sub
          \<and> cell cd' b' ''DIS_SETTLEMENT'' (month m) = Some dis
          \<and> cell cd' b' ''REV_NET'' (month m) = Some (sub - dis)"
    by blast
qed

theorem net_revenue_exact_witness:
  "2 \<in> set BRANCH_IDS \<and> 2 \<in> set (getSelectedBranches (SelBranch 2)) \<and> 3 \<in> set [1..<13]
   \<and> calculated (calculateAllValues scenario_revenueData scenario_allocations scenario_assumptions) 2 ''REV_SUB''
        = Some 160000
   \<and> calculated (calculateAllValues scenario_revenueData scenario_allocations scenario_assumptions) 2 ''DIS_SETTLEMENT''
        = Some 6080
   \<and> calculated (calculateAllValues scenario_revenueData scenario_allocations scenario_assumptions) 2 ''REV_NET''
        = Some 153920
   \<and> (\<exists>cd' sub dis.
            calculateAllBranchValues scenario_monthly scenario_allocations scenario_assumptions (SelBranch 2) Map.empty = Some cd'
          \<and> cell cd' 2 ''REV_SUB'' (month 3) = Some sub
          \<and> cell cd' 2 ''DIS_SETTLEMENT'' (month 3) = Some dis
          \<and> cell cd' 2 ''REV_NET'' (month 3) = Some (sub - dis))"
proof -
  let ?E = "calculated (calculateAllValues scenario_revenueData scenario_allocations scenario_assumptions) 2"
  have sub: "?E ''REV_SUB'' = Some 160000"
    by (simp only: calculated_editor [OF scenario_branch(1)] lookup_discounts scenario_inputs) simp
  have dis: "?E ''DIS_SETTLEMENT'' = Some 6080"
    by (simp only: calculated_editor [OF scenario_branch(1)] lookup_discounts scenario_inputs
        spec_DIS_SETTLEMENT_def) simp
  from net_revenue_exact [OF scenario_branch(1,2,4),
      of scenario_revenueData scenario_allocations scenario_assumptions scenario_monthly Map.empty]
  have "?E ''REV_NET'' = Some (160000 - 6080)"
    and "\<exists>cd' sub dis.
            calculateAllBranchValues scenario_monthly scenario_allocations scenario_assumptions (SelBranch 2) Map.empty = Some cd'
          \<and> cell cd' 2 ''REV_SUB'' (month 3) = Some sub
          \<and> cell cd' 2 ''DIS_SETTLEMENT'' (month 3) = Some dis
          \<and> cell cd' 2 ''REV_NET'' (month 3) = Some (sub - dis)"
    using sub dis by auto
  with sub dis scenario_branch show ?thesis by simp
qed

subsection \<open>C4: the profit lines\<close>

text \<open>
  Claim C4. For every input, the computed values satisfy
  \<open>EBITDA = GROSS_PROFIT - TOTAL_GA + OTHER_INCOME\<close>,
  \<open>NET_PROFIT = EBITDA - FINANCE_COST - DEPRECIATION - ZAKAT\<close> and
  \<open>TOTAL_COMP_INCOME = NET_PROFIT + OCI\<close>, in the editor's table for every branch and
  in every month column of the budget view.
\<close>

theorem profit_lines:
  assumes "b \<in> set BRANCH_IDS" and "b' \<in> set (getSelectedBranches selected)" and "m \<in> set [1..<13]"
  shows "profit_identities (calculated (calculateAllValues rd rta ad) b)
       \<and> (\<exists>cd'. calculateAllBranchValues mrd rta ad selected cd = Some cd'
            \<and> profit_identities (\<lambda>code. cell cd' b' code (month m)))"
proof
  show "profit_identities (calculated (calculateAllValues rd rta ad) b)"
    using assms(1) by (simp add: calculated_editor_fun cascade_profit_identities)
  obtain cd' where cd': "calculateAllBranchValues mrd rta ad selected cd = Some cd'"
    by (simp add: calculateAllBranchValues_eq)
  have "profit_identities (\<lambda>code. cell cd' b' code (month m))"
  proof (rule profit_identities_cong [OF _ cascade_profit_identities])
    fix code
    assume "code \<in> set (drop 3 LINE_ITEMS_CONFIG)"
    then show "map_of (spec_cascade (orZero (IP (monthRevenue mrd b' m)) + orZero (OP (monthRevenue mrd b' m))
                           + orZero (ER (monthRevenue mrd b' m)))
                 (assumption_value ad b') (revTypePct rta b')) code = cell cd' b' code (month m)"
      by (simp add: month_column_cascade [OF cd' assms(2,3)])
  qed
  with cd' show "\<exists>cd'. calculateAllBranchValues mrd rta ad selected cd = Some cd'
            \<and> profit_identities (\<lambda>code. cell cd' b' code (month m))"
    by blast
qed

theorem profit_lines_witness:
  "2 \<in> set BRANCH_IDS \<and> 2 \<in> set (getSelectedBranches SelAll) \<and> 3 \<in> set [1..<13]
   \<and> profit_identities
        (calculated (calculateAllValues scenario_revenueData scenario_allocations scenario_assumptions) 2)
   \<and> (\<exists>cd'. calculateAllBranchValues scenario_monthly scenario_allocations scenario_assumptions
               SelAll Map.empty = Some cd'
          \<and> profit_identities (\<lambda>code. cell cd' 2 code (month 3)))"
  using profit_lines [OF scenario_branch(1,3,4),
      of scenario_revenueData scenario_allocations scenario_assumptions scenario_monthly Map.empty]
    scenario_branch
  by blast

subsection \<open>C5: the aggregation over branches\<close>

text \<open>
  Claim C5. For every branch selection, per period and per line item the row that
  \<^verbatim>\<open>createDataRow\<close> shows is the sum over the selected branches: for one selected
  branch it is that branch's own values, for \<^verbatim>\<open>'all'\<close> it is the sum over every branch
  of \<open>BRANCH_IDS\<close>, and a branch without data adds 0 for every item and nothing fails:
  a branch that the table lacks reads as 0, and a branch without revenue data is computed,
  without a throw, to a row of zeros.
\<close>

theorem aggregator_sums_selected_branches:
  "createDataRow cd selected code =
     (map (\<lambda>m. \<Sum>b\<leftarrow>getSelectedBranches selected. cellOrZero cd b code (month m)) [1..<13],
      \<Sum>m\<leftarrow>[1..<13]. \<Sum>b\<leftarrow>getSelectedBranches selected. cellOrZero cd b code (month m))
   \<and> fst (createDataRow cd (SelBranch b) code) = map (\<lambda>m. cellOrZero cd b code (month m)) [1..<13]
   \<and> fst (createDataRow cd SelAll code) = map (\<lambda>m. \<Sum>b\<leftarrow>BRANCH_IDS. cellOrZero cd b code (month m)) [1..<13]
   \<and> cellOrZero (cd(b := None)) b code key = 0
   \<and> (\<exists>cd'. calculateAllBranchValues (mrd(b := None)) rta ad (SelBranch b) cd = Some cd'
         \<and> fst (createDataRow cd' (SelBranch b) code) = map (\<lambda>m. 0) [1..<13])"
proof -
  have row: "createDataRow cd selected code =
     (map (\<lambda>m. \<Sum>b\<leftarrow>getSelectedBranches selected. cellOrZero cd b code (month m)) [1..<13],
      \<Sum>m\<leftarrow>[1..<13]. \<Sum>b\<leftarrow>getSelectedBranches selected. cellOrZero cd b code (month m))"
    for cd selected
  proof -
    have "map (monthTotal cd selected code) [1..<13]
        = map (\<lambda>m. \<Sum>b\<leftarrow>getSelectedBranches selected. cellOrZero cd b code (month m)) [1..<13]"
      by (rule map_cong [OF refl]) (rule monthTotal_eq)
    then show ?thesis
      by (simp only: createDataRow_def Let_def foldl_plus_sum_list add_0 comp_def)
  qed
  obtain cd' where cd': "calculateAllBranchValues (mrd(b := None)) rta ad (SelBranch b) cd = Some cd'"
    by (simp add: calculateAllBranchValues_eq)
  have zero: "monthValue (mrd(b := None)) rta ad b m code = 0" for m
    by (rule monthValue_no_revenue) (simp_all add: monthRevenue_def)
  have "cellOrZero cd' b code (month m) = 0" for m
    using cd' by (auto simp: calculateAllBranchValues_eq cellOrZero_def budgetItems_def budgetRow_def zero)
  then have "fst (createDataRow cd' (SelBranch b) code) = map (\<lambda>m. 0) [1..<13]"
    by (simp add: row)
  with cd' have nodata: "\<exists>cd'. calculateAllBranchValues (mrd(b := None)) rta ad (SelBranch b) cd = Some cd'
         \<and> fst (createDataRow cd' (SelBranch b) code) = map (\<lambda>m. 0) [1..<13]"
    by blast
  have "fst (createDataRow cd (SelBranch b) code) = map (\<lambda>m. cellOrZero cd b code (month m)) [1..<13]"
    "fst (createDataRow cd SelAll code) = map (\<lambda>m. \<Sum>b\<leftarrow>BRANCH_IDS. cellOrZero cd b code (month m)) [1..<13]"
    "cellOrZero (cd(b := None)) b code key = 0"
    by (simp_all add: row cellOrZero_def)
  with row [of cd selected] nodata show ?thesis by blast
qed

theorem aggregator_sums_selected_branches_witness:
  "\<exists>cd'. calculateAllBranchValues scenario_monthly scenario_allocations scenario_assumptions SelAll Map.empty
          = Some cd'
     \<and> fst (createDataRow cd' (SelBranch 2) ''REV_NET'') = map (\<lambda>m. 153920) [1..<13]
     \<and> fst (createDataRow cd' (SelBranch 5) ''REV_NET'') = map (\<lambda>m. 0) [1..<13]
     \<and> fst (createDataRow cd' SelAll ''REV_NET'') = map (\<lambda>m. 153920) [1..<13]
     \<and> fst (createDataRow (cd'(2 := None)) SelAll ''REV_NET'') = map (\<lambda>m. 0) [1..<13]"
proof -
  obtain cd' where cd': "calculateAllBranchValues scenario_monthly scenario_allocations scenario_assumptions
      SelAll Map.empty = Some cd'"
    by (simp add: calculateAllBranchValues_eq)
  have c: "cellOrZero cd' b ''REV_NET'' (month m)
      = monthValue scenario_monthly scenario_allocations scenario_assumptions b m ''REV_NET''"
    if "b \<in> set BRANCH_IDS" "m \<in> set [1..<13]" for b m
    using that by (intro cellOrZero_budget [OF cd']) (simp_all add: in_LINE_ITEMS_CONFIG)
  have two: "cellOrZero cd' 2 ''REV_NET'' (month m) = 153920" if "m \<in> set [1..<13]" for m
    using c [OF scenario_branch(1) that] scenario_monthValue [OF that] by simp
  have others: "cellOrZero cd' b ''REV_NET'' (month m) = 0"
    if "b \<in> set BRANCH_IDS" "b \<noteq> 2" "m \<in> set [1..<13]" for b m
    using c [OF that(1,3)] scenario_other_branches [OF that(2)] by simp
  have removed: "cellOrZero (cd'(2 := None)) b ''REV_NET'' (month m) = 0"
    if "b \<in> set BRANCH_IDS" "m \<in> set [1..<13]" for b m
  proof (cases "b = 2")
    case True
    then show ?thesis by (simp add: cellOrZero_def)
  next
    case False
    then have "cellOrZero (cd'(2 := None)) b ''REV_NET'' (month m) = cellOrZero cd' b ''REV_NET'' (month m)"
      by (simp add: cellOrZero_def)
    with others [OF that(1) False that(2)] show ?thesis by simp
  qed
  have a: "map (\<lambda>m. cellOrZero cd' 2 ''REV_NET'' (month m)) [1..<13] = map (\<lambda>m. 153920) [1..<13]"
    by (rule map_cong [OF refl]) (rule two)
  have b: "map (\<lambda>m. cellOrZero cd' 5 ''REV_NET'' (month m)) [1..<13] = map (\<lambda>m. 0) [1..<13]"
    by (rule map_cong [OF refl]) (rule others, simp_all add: BRANCH_IDS_def)
  have all: "map (\<lambda>m. \<Sum>b\<leftarrow>BRANCH_IDS. cellOrZero cd' b ''REV_NET'' (month m)) [1..<13]
      = map (\<lambda>m. 153920) [1..<13]"
  proof (rule map_cong [OF refl])
    fix m assume m: "m \<in> set [1..<13]"
    have "(\<Sum>b\<leftarrow>BRANCH_IDS. cellOrZero cd' b ''REV_NET'' (month m))
        = cellOrZero cd' 1 ''REV_NET'' (month m) + cellOrZero cd' 2 ''REV_NET'' (month m)
          + cellOrZero cd' 3 ''REV_NET'' (month m) + cellOrZero cd' 4 ''REV_NET'' (month m)
          + cellOrZero cd' 5 ''REV_NET'' (month m) + cellOrZero cd' 6 ''REV_NET'' (month m)"
      by (simp add: BRANCH_IDS_def)
    also have "\<dots> = 153920"
      using two [OF m] others [of 1 m] others [of 3 m] others [of 4 m] others [of 5 m] others [of 6 m] m
      by (simp add: BRANCH_IDS_def)
    finally show "(\<Sum>b\<leftarrow>BRANCH_IDS. cellOrZero cd' b ''REV_NET'' (month m)) = 153920" .
  qed
  have none: "map (\<lambda>m. \<Sum>b\<leftarrow>BRANCH_IDS. cellOrZero (cd'(2 := None)) b ''REV_NET'' (month m)) [1..<13]
      = map (\<lambda>m. 0) [1..<13]"
  proof (rule map_cong [OF refl])
    fix m assume m: "m \<in> set [1..<13]"
    have "map (\<lambda>b. cellOrZero (cd'(2 := None)) b ''REV_NET'' (month m)) BRANCH_IDS = map (\<lambda>b. 0) BRANCH_IDS"
      by (rule map_cong [OF refl]) (rule removed [OF _ m])
    then have "(\<Sum>b\<leftarrow>BRANCH_IDS. cellOrZero (cd'(2 := None)) b ''REV_NET'' (month m))
        = sum_list (map (\<lambda>b. 0) BRANCH_IDS)"
      by (rule arg_cong)
    then show "(\<Sum>b\<leftarrow>BRANCH_IDS. cellOrZero (cd'(2 := None)) b ''REV_NET'' (month m)) = 0"
      by simp
  qed
  have r1: "fst (createDataRow cd' (SelBranch 2) ''REV_NET'') = map (\<lambda>m. 153920) [1..<13]"
    using aggregator_sums_selected_branches [of cd' SelAll "''REV_NET''" 2 "month 3" scenario_monthly
      scenario_allocations scenario_assumptions, THEN conjunct2, THEN conjunct1]
    by (simp only: a)
  have r2: "fst (createDataRow cd' SelAll ''REV_NET'') = map (\<lambda>m. 153920) [1..<13]"
    using aggregator_sums_selected_branches [of cd' SelAll "''REV_NET''" 2 "month 3" scenario_monthly
      scenario_allocations scenario_assumptions, THEN conjunct2, THEN conjunct2, THEN conjunct1]
    by (simp only: all)
  have r3: "fst (createDataRow cd' (SelBranch 5) ''REV_NET'') = map (\<lambda>m. 0) [1..<13]"
    using aggregator_sums_selected_branches [of cd' SelAll "''REV_NET''" 5 "month 3" scenario_monthly
      scenario_allocations scenario_assumptions, THEN conjunct2, THEN conjunct1]
    by (simp only: b)
  have r4: "fst (createDataRow (cd'(2 := None)) SelAll ''REV_NET'') = map (\<lambda>m. 0) [1..<13]"
    using aggregator_sums_selected_branches [of "cd'(2 := None)" SelAll "''REV_NET''" 2 "month 3"
      scenario_monthly scenario_allocations scenario_assumptions, THEN conjunct2, THEN conjunct2, THEN conjunct1]
    by (simp only: none)
  from cd' r1 r2 r3 r4 show ?thesis by blast
qed

subsection \<open>C6: fiscal totals\<close>

text \<open>
  Claim C6. For every branch and every line item, \<^verbatim>\<open>fy_total\<close> is the sum of the
  item's computed values over the twelve months, taken from the values as computed: the
  month cells hold the unrounded values of \<^verbatim>\<open>calculateMonthValues\<close> and nothing
  rounds them before they are added. The branches are those that the view computes, the
  selected ones.
\<close>

theorem fiscal_total_is_sum_of_months:
  assumes "b \<in> set (getSelectedBranches selected)" and "code \<in> set LINE_ITEMS_CONFIG"
  shows "\<exists>cd'. calculateAllBranchValues mrd rta ad selected cd = Some cd'
     \<and> map (\<lambda>m. cell cd' b code (month m)) [1..<13]
         = map (\<lambda>m. Some (monthValue mrd rta ad b m code)) [1..<13]
     \<and> cell cd' b code fy_total = Some (\<Sum>m\<leftarrow>[1..<13]. monthValue mrd rta ad b m code)"
proof -
  obtain cd' where cd': "calculateAllBranchValues mrd rta ad selected cd = Some cd'"
    by (simp add: calculateAllBranchValues_eq)
  have "cell cd' b code key = budgetRow mrd rta ad b code key" for key
    by (rule cell_budget [OF cd' assms])
  then have "map (\<lambda>m. cell cd' b code (month m)) [1..<13]
         = map (\<lambda>m. Some (monthValue mrd rta ad b m code)) [1..<13]"
    and "cell cd' b code fy_total = Some (\<Sum>m\<leftarrow>[1..<13]. monthValue mrd rta ad b m code)"
    by (simp_all add: budgetRow_def)
  with cd' show ?thesis by blast
qed

theorem fiscal_total_is_sum_of_months_witness:
  "2 \<in> set (getSelectedBranches SelAll) \<and> ''REV_NET'' \<in> set LINE_ITEMS_CONFIG
   \<and> (\<exists>cd'. calculateAllBranchValues scenario_monthly scenario_allocations scenario_assumptions SelAll Map.empty
          = Some cd'
        \<and> map (\<lambda>m. cell cd' 2 ''REV_NET'' (month m)) [1..<13] = map (\<lambda>m. Some 153920) [1..<13]
        \<and> cell cd' 2 ''REV_NET'' fy_total = Some 1847040)"
proof -
  have mv: "map (\<lambda>m. monthValue scenario_monthly scenario_allocations scenario_assumptions 2 m ''REV_NET'') [1..<13]
      = map (\<lambda>m. 153920) [1..<13]"
    by (rule map_cong [OF refl]) (rule scenario_monthValue)
  have mv': "map (\<lambda>m. Some (monthValue scenario_monthly scenario_allocations scenario_assumptions 2 m ''REV_NET'')) [1..<13]
      = map (\<lambda>m. Some 153920) [1..<13]"
    by (rule map_cong [OF refl]) (simp only: scenario_monthValue)
  have total: "(\<Sum>m\<leftarrow>[1..<13]. monthValue scenario_monthly scenario_allocations scenario_assumptions 2 m ''REV_NET'')
      = 1847040"
    by (simp only: mv) (simp add: sum_list_triv)
  from fiscal_total_is_sum_of_months [OF scenario_branch(3) in_LINE_ITEMS_CONFIG(10),
      of scenario_monthly scenario_allocations scenario_assumptions Map.empty]
  show ?thesis
    by (simp only: mv' total scenario_branch(3) in_LINE_ITEMS_CONFIG(10) simp_thms)
qed

subsection \<open>C7: revenue-type totals\<close>

text \<open>
  Claim C7. The revenue-type allocation total of an allocation code is the unweighted
  arithmetic average of the code's percentage over exactly the branches whose value is
  strictly greater than 0: a branch whose value is 0 or absent counts neither in the sum nor
  in the number of branches, and the total is 0 when no branch has a positive value.
\<close>

theorem revenue_type_total_is_plain_average:
  "avgTotal rta code = mean (filter (\<lambda>v. v > 0) (map (\<lambda>b. revTypePct rta b code) BRANCH_IDS))
   \<and> calculateRevenueTypeTotals rta =
       map (\<lambda>code. (code, mean (filter (\<lambda>v. v > 0) (map (\<lambda>b. revTypePct rta b code) BRANCH_IDS))))
         REVENUE_TYPE_CONFIG"
proof -
  have "avgTotal rta code = mean (filter (\<lambda>v. v > 0) (map (\<lambda>b. revTypePct rta b code) BRANCH_IDS))"
    for code
    by (simp add: avgTotal_def Let_def fold_typeTotalStep mean_def)
  then show ?thesis by (simp add: calculateRevenueTypeTotals_def)
qed

theorem revenue_type_total_is_plain_average_witness:
  "avgTotal example_allocations ''REV_TYPE_MOH'' = 30
   \<and> map (\<lambda>b. revTypePct example_allocations b ''REV_TYPE_MOH'') BRANCH_IDS = [20, 40, 0, - 10, 0, 0]
   \<and> avgTotal example_allocations ''REV_TYPE_CASH'' = 0"
proof -
  have v: "map (\<lambda>b. revTypePct example_allocations b ''REV_TYPE_MOH'') BRANCH_IDS = [20, 40, 0, - 10, 0, 0]"
    "map (\<lambda>b. revTypePct example_allocations b ''REV_TYPE_CASH'') BRANCH_IDS = [0, 0, 0, 0, 0, 0]"
    by (simp_all add: BRANCH_IDS_def revTypePct_def example_allocations_def)
  from revenue_type_total_is_plain_average [of example_allocations "''REV_TYPE_MOH''"]
    revenue_type_total_is_plain_average [of example_allocations "''REV_TYPE_CASH''"]
  show ?thesis by (simp add: v mean_def)
qed

subsection \<open>C8: cost per episode by stay type\<close>

text \<open>
  Claim C8. In the daily-budget summary, the average cost per episode of the stay types
  \<open>LTC\<close> and \<open>Non-LTC\<close> is the mean of the positive \<^verbatim>\<open>cpe\<close> values of their
  records, and that of every other stay type, \<open>OP\<close> and \<open>ER\<close> among them, is the total
  revenue over the total episode count; the stay type alone decides which rule applies.
  The code guards both divisions: without a positive \<^verbatim>\<open>cpe\<close>, or without a positive
  episode count, the metric is 0. A stay type without records has no row, and neither has a
  stay type that names a property inherited from \<^verbatim>\<open>Object.prototype\<close>.
\<close>

theorem cost_per_episode_by_stay_type:
  "summaryCPE rows stayType =
     (if stayType \<in> set Object_prototype_names \<or> rowsOf rows stayType = [] then None
      else Some (if stayType = ''LTC'' \<or> stayType = ''Non-LTC''
                 then mean (positiveCpes (rowsOf rows stayType))
                 else (let totalRevenue = (\<Sum>row\<leftarrow>rowsOf rows stayType. orZero (row_revenue row));
                           totalEpisodes = (\<Sum>row\<leftarrow>rowsOf rows stayType. orZero (row_episodes row))
                       in if totalEpisodes > 0 then totalRevenue / totalEpisodes else 0)))"
proof (cases "stayType \<in> set Object_prototype_names")
  case True
  then show ?thesis
    by (simp add: summaryCPE_def stayTypeMetrics_def addRow_inherited)
next
  case False
  show ?thesis
    using False
    by (simp add: summaryCPE_def stayTypeMetrics_def fold_addRow avgCPE_def fold_updateMetrics mean_def Let_def)
qed

theorem cost_per_episode_by_stay_type_witness:
  "summaryCPE example_daily ''LTC'' = Some 200 \<and> summaryCPE example_daily ''OP'' = Some 250
   \<and> summaryCPE example_daily ''ER'' = None \<and> summaryCPE example_daily ''constructor'' = None"
proof -
  have rows: "rowsOf example_daily ''LTC'' = [example_daily ! 0, example_daily ! 2, example_daily ! 4]"
    "rowsOf example_daily ''OP'' = [example_daily ! 1, example_daily ! 3]"
    "rowsOf example_daily ''ER'' = []"
    by (simp_all add: rowsOf_def example_daily_def stayTypeOf_def)
  have names: "''LTC'' \<notin> set Object_prototype_names" "''OP'' \<notin> set Object_prototype_names"
    "''ER'' \<notin> set Object_prototype_names" "''constructor'' \<in> set Object_prototype_names"
    by (simp_all add: Object_prototype_names_def)
  from cost_per_episode_by_stay_type [of example_daily "''LTC''"]
    cost_per_episode_by_stay_type [of example_daily "''OP''"]
    cost_per_episode_by_stay_type [of example_daily "''ER''"]
    cost_per_episode_by_stay_type [of example_daily "''constructor''"]
  show ?thesis
    by (simp add: rows names) (simp add: example_daily_def positiveCpes_def mean_def)
qed

subsection \<open>C9: zero in, zero out\<close>

text \<open>
  Claim C9. If the revenue figures (IP, OP, ER) of a branch are all 0 or absent and its
  assumption percentages are all 0 or absent, then every line item computed for the branch
  is 0: every entry of the editor's table, and every month cell and fiscal total of the
  budget view.
\<close>

theorem zero_inputs_give_zero_outputs:
  assumes "b \<in> set BRANCH_IDS" and "b' \<in> set (getSelectedBranches selected)"
    and "annualRevenue rd b IP = 0" and "annualRevenue rd b OP = 0" and "annualRevenue rd b ER = 0"
    and "\<forall>code. assumption_value ad b code = 0"
    and "\<forall>m \<in> set [1..<13]. orZero (IP (monthRevenue mrd b' m)) = 0 \<and> orZero (OP (monthRevenue mrd b' m)) = 0
            \<and> orZero (ER (monthRevenue mrd b' m)) = 0"
    and "\<forall>code. assumption_value ad b' code = 0"
  shows "dom (calculated (calculateAllValues rd rta ad) b) = set (drop 3 LINE_ITEMS_CONFIG)
       \<and> (\<forall>code \<in> set (drop 3 LINE_ITEMS_CONFIG). calculated (calculateAllValues rd rta ad) b code = Some 0)
       \<and> (\<exists>cd'. calculateAllBranchValues mrd rta ad selected cd = Some cd'
            \<and> (\<forall>code \<in> set LINE_ITEMS_CONFIG.
                  (\<forall>m \<in> set [1..<13]. cell cd' b' code (month m) = Some 0)
                  \<and> cell cd' b' code fy_total = Some 0))"
proof (intro conjI)
  let ?E = "calculated (calculateAllValues rd rta ad) b"
  have E: "?E = map_of (spec_cascade 0 (assumption_value ad b) (revTypePct rta b))"
    using assms(1,3,4,5) by (simp add: calculated_editor_fun)
  have "fst ` set (spec_cascade 0 (assumption_value ad b) (revTypePct rta b))
      = set (map fst (spec_cascade 0 (assumption_value ad b) (revTypePct rta b)))"
    by simp
  then show "dom ?E = set (drop 3 LINE_ITEMS_CONFIG)"
    by (simp only: E dom_map_of_conv_image_fst keys_spec_cascade)
  show "\<forall>code \<in> set (drop 3 LINE_ITEMS_CONFIG). ?E code = Some 0"
    by (simp add: E cascade_zero)
  obtain cd' where cd': "calculateAllBranchValues mrd rta ad selected cd = Some cd'"
    by (simp add: calculateAllBranchValues_eq)
  have mv: "monthValue mrd rta ad b' m code = 0" if "m \<in> set [1..<13]" for m code
    using assms(7) that by (intro monthValue_no_revenue) simp_all
  have "cell cd' b' code (month m) = Some 0" if "code \<in> set LINE_ITEMS_CONFIG" "m \<in> set [1..<13]" for code m
    using cell_budget [OF cd' assms(2) that(1), of "month m"] that(2) mv by (simp add: budgetRow_def)
  moreover have "cell cd' b' code fy_total = Some 0" if "code \<in> set LINE_ITEMS_CONFIG" for code
  proof -
    have "map (\<lambda>m. monthValue mrd rta ad b' m code) [1..<13] = map (\<lambda>m. 0) [1..<13]"
      by (rule map_cong [OF refl]) (rule mv)
    then have "(\<Sum>m\<leftarrow>[1..<13]. monthValue mrd rta ad b' m code) = sum_list (map (\<lambda>m. 0) [1..<13])"
      by (rule arg_cong)
    then show ?thesis
      using cell_budget [OF cd' assms(2) that, of fy_total] by (simp add: budgetRow_def)
  qed
  ultimately show "\<exists>cd'. calculateAllBranchValues mrd rta ad selected cd = Some cd'
            \<and> (\<forall>code \<in> set LINE_ITEMS_CONFIG.
                  (\<forall>m \<in> set [1..<13]. cell cd' b' code (month m) = Some 0)
                  \<and> cell cd' b' code fy_total = Some 0)"
    using cd' by blast
qed

theorem zero_inputs_give_zero_outputs_witness:
  "5 \<in> set BRANCH_IDS \<and> 5 \<in> set (getSelectedBranches SelAll)
   \<and> annualRevenue scenario_revenueData 5 IP = 0 \<and> annualRevenue scenario_revenueData 5 OP = 0
   \<and> annualRevenue scenario_revenueData 5 ER = 0
   \<and> (\<forall>code. assumption_value scenario_assumptions 5 code = 0)
   \<and> list_all (\<lambda>m. orZero (IP (monthRevenue scenario_monthly 5 m)) = 0
          \<and> orZero (OP (monthRevenue scenario_monthly 5 m)) = 0
          \<and> orZero (ER (monthRevenue scenario_monthly 5 m)) = 0) [1..<13]
   \<and> ''EBITDA'' \<in> set (drop 3 LINE_ITEMS_CONFIG) \<and> ''EBITDA'' \<in> set LINE_ITEMS_CONFIG
   \<and> 3 \<in> set [1..<13]
   \<and> calculated (calculateAllValues scenario_revenueData scenario_allocations scenario_assumptions) 5 ''EBITDA''
        = Some 0
   \<and> (\<exists>cd'. calculateAllBranchValues scenario_monthly scenario_allocations scenario_assumptions SelAll Map.empty
          = Some cd'
        \<and> cell cd' 5 ''EBITDA'' (month 3) = Some 0 \<and> cell cd' 5 ''EBITDA'' fy_total = Some 0)"
proof -
  have b: "5 \<in> set BRANCH_IDS" "5 \<in> set (getSelectedBranches SelAll)"
    by (simp_all add: BRANCH_IDS_def)
  have rev: "annualRevenue scenario_revenueData 5 IP = 0" "annualRevenue scenario_revenueData 5 OP = 0"
    "annualRevenue scenario_revenueData 5 ER = 0"
    by (simp_all add: annualRevenue_def scenario_revenueData_def)
  have asm: "\<forall>code. assumption_value scenario_assumptions 5 code = 0"
    by (simp add: assumption_value_def scenario_assumptions_def)
  have mon: "\<forall>m \<in> set [1..<13]. orZero (IP (monthRevenue scenario_monthly 5 m)) = 0
          \<and> orZero (OP (monthRevenue scenario_monthly 5 m)) = 0
          \<and> orZero (ER (monthRevenue scenario_monthly 5 m)) = 0"
    by (simp add: monthRevenue_def scenario_monthly_def)
  have code: "''EBITDA'' \<in> set (drop 3 LINE_ITEMS_CONFIG)" "''EBITDA'' \<in> set LINE_ITEMS_CONFIG"
    using in_cascade_codes(2) by (simp_all add: in_LINE_ITEMS_CONFIG)
  have m: "3 \<in> set [1..<13]" by simp
  from zero_inputs_give_zero_outputs [OF b rev asm mon asm, of scenario_allocations Map.empty]
  obtain cd' where "calculated (calculateAllValues scenario_revenueData scenario_allocations scenario_assumptions) 5 ''EBITDA''
        = Some 0"
    and "calculateAllBranchValues scenario_monthly scenario_allocations scenario_assumptions SelAll Map.empty
          = Some cd'"
    and "cell cd' 5 ''EBITDA'' (month 3) = Some 0" and "cell cd' 5 ''EBITDA'' fy_total = Some 0"
    using code m by blast
  moreover have "list_all (\<lambda>m. orZero (IP (monthRevenue scenario_monthly 5 m)) = 0
          \<and> orZero (OP (monthRevenue scenario_monthly 5 m)) = 0
          \<and> orZero (ER (monthRevenue scenario_monthly 5 m)) = 0) [1..<13]"
    using mon by (simp only: list_all_iff)
  ultimately show ?thesis using b rev asm code m by blast
qed

subsection \<open>C10: the allocations that are never read\<close>

text \<open>
  Claim C10. For every branch, the computed line-item values depend on the
  \<open>REV_TYPE_MOH\<close> and \<open>REV_TYPE_INSURANCE\<close> allocations only: two runs whose inputs
  differ only in the \<open>REV_TYPE_CASH\<close> and \<open>REV_TYPE_OTHER_CREDIT\<close> allocations
  compute the same tables, in the editor and in the budget view.
\<close>

theorem cash_and_other_credit_never_read:
  assumes "\<forall>b code. code \<noteq> ''REV_TYPE_CASH'' \<and> code \<noteq> ''REV_TYPE_OTHER_CREDIT''
             \<longrightarrow> revTypePct rta b code = revTypePct rta' b code"
  shows "calculateAllValues rd rta ad = calculateAllValues rd rta' ad
       \<and> calculateAllBranchValues mrd rta ad selected cd = calculateAllBranchValues mrd rta' ad selected cd"
proof -
  have moh: "revTypePct rta b ''REV_TYPE_MOH'' = revTypePct rta' b ''REV_TYPE_MOH''"
    and ins: "revTypePct rta b ''REV_TYPE_INSURANCE'' = revTypePct rta' b ''REV_TYPE_INSURANCE''" for b
    using assms by simp_all
  have casc: "spec_cascade s a (revTypePct rta b) = spec_cascade s a (revTypePct rta' b)" for s a b
    by (rule spec_cascade_allocations [OF moh ins])
  have "calculateAllValues_branch rd rta ad b = calculateAllValues_branch rd rta' ad b" for b
    by (simp only: editor_refines casc)
  then have editor: "calculateAllValues rd rta ad = calculateAllValues rd rta' ad"
    by (simp only: calculateAllValues_eq)
  have "calculateMonthValues_values mrd rta ad b m = calculateMonthValues_values mrd rta' ad b m" for b m
    by (simp only: budget_refines compute_def casc)
  then have mv: "monthValue mrd rta ad b m code = monthValue mrd rta' ad b m code" for b m code
    by (simp only: monthValue_def)
  have "budgetItems mrd rta ad b = budgetItems mrd rta' ad b" for b
    by (simp only: budgetItems_def budgetRow_def mv)
  then have "calculateAllBranchValues mrd rta ad selected cd = calculateAllBranchValues mrd rta' ad selected cd"
    by (simp only: calculateAllBranchValues_eq)
  with editor show ?thesis ..
qed

theorem cash_and_other_credit_never_read_witness:
  "(\<forall>b code. code = ''REV_TYPE_CASH'' \<or> code = ''REV_TYPE_OTHER_CREDIT''
        \<or> revTypePct scenario_allocations b code = revTypePct scenario_allocations_cash b code)
   \<and> revTypePct scenario_allocations 2 ''REV_TYPE_CASH'' = 0
   \<and> revTypePct scenario_allocations_cash 2 ''REV_TYPE_CASH'' = 7
   \<and> revTypePct scenario_allocations 2 ''REV_TYPE_OTHER_CREDIT'' = 0
   \<and> revTypePct scenario_allocations_cash 2 ''REV_TYPE_OTHER_CREDIT'' = 3
   \<and> calculateAllValues scenario_revenueData scenario_allocations scenario_assumptions
       = calculateAllValues scenario_revenueData scenario_allocations_cash scenario_assumptions
   \<and> calculateAllBranchValues scenario_monthly scenario_allocations scenario_assumptions SelAll Map.empty
       = calculateAllBranchValues scenario_monthly scenario_allocations_cash scenario_assumptions SelAll Map.empty"
proof -
  have h: "\<forall>b code. code \<noteq> ''REV_TYPE_CASH'' \<and> code \<noteq> ''REV_TYPE_OTHER_CREDIT''
        \<longrightarrow> revTypePct scenario_allocations b code = revTypePct scenario_allocations_cash b code"
    by (simp add: revTypePct_def scenario_allocations_def scenario_allocations_cash_def)
  have v: "revTypePct scenario_allocations 2 ''REV_TYPE_CASH'' = 0"
    "revTypePct scenario_allocations_cash 2 ''REV_TYPE_CASH'' = 7"
    "revTypePct scenario_allocations 2 ''REV_TYPE_OTHER_CREDIT'' = 0"
    "revTypePct scenario_allocations_cash 2 ''REV_TYPE_OTHER_CREDIT'' = 3"
    by (simp_all add: revTypePct_def scenario_allocations_def scenario_allocations_cash_def)
  have h': "\<forall>b code. code = ''REV_TYPE_CASH'' \<or> code = ''REV_TYPE_OTHER_CREDIT''
        \<or> revTypePct scenario_allocations b code = revTypePct scenario_allocations_cash b code"
    using h by blast
  from cash_and_other_credit_never_read [OF h, of scenario_revenueData scenario_assumptions
      scenario_monthly SelAll Map.empty] h' v
  show ?thesis by blast
qed

end
